theory Spec2Isabelle
  imports Main "HOL-Library.Sublist" "HOL-Library.Word"
begin

unbundle bit_operations_syntax

section \<open>Text\<close>

text \<open>
  A Python \<open>str\<close> is modelled as a HOL \<open>string\<close>: a character of the model is one
  of the code points U+0000..U+00FF. The character classes below are those of CPython
  on that range (\<open>str.isspace\<close>, the \<open>\d\<close> and \<open>\s\<close> classes of \<open>re\<close>,
  \<open>str.lower\<close>, \<open>str.upper\<close>).
\<close>

definition whitespace :: "char list" where
  "whitespace = [CHR 0x09, CHR 0x0A, CHR 0x0B, CHR 0x0C, CHR 0x0D, CHR 0x1C, CHR 0x1D,
     CHR 0x1E, CHR 0x1F, CHR 0x20, CHR 0x85, CHR 0xA0]"

definition isspace :: "char \<Rightarrow> bool" where
  "isspace c = (c \<in> set whitespace)"

definition isdigit :: "char \<Rightarrow> bool" where
  "isdigit c = (c \<in> set ''0123456789'')"

definition digit_val :: "char \<Rightarrow> nat" where
  "digit_val c = of_char c - 48"

definition strip :: "string \<Rightarrow> string" where
  "strip s = rev (dropWhile isspace (rev (dropWhile isspace s)))"

definition lower_char :: "char \<Rightarrow> char" where
  "lower_char c =
     (let n = (of_char c :: nat)
      in if (65 \<le> n \<and> n \<le> 90) \<or> (192 \<le> n \<and> n \<le> 222 \<and> n \<noteq> 215)
         then char_of (n + 32) else c)"

definition lower :: "string \<Rightarrow> string" where
  "lower s = map lower_char s"

text \<open>
  \<open>str.upper\<close>: U+00DF becomes \<open>SS\<close>; the upper-case forms of U+00B5 and U+00FF lie
  outside the range of the model and these two characters are left as they are (the
  source only asks whether the upper-cased text starts with \<open>UTC\<close>).
\<close>

definition upper_char :: "char \<Rightarrow> string" where
  "upper_char c =
     (let n = (of_char c :: nat)
      in if (97 \<le> n \<and> n \<le> 122) \<or> (224 \<le> n \<and> n \<le> 254 \<and> n \<noteq> 247)
         then [char_of (n - 32)]
         else if n = 223 then ''SS'' else [c])"

definition upper :: "string \<Rightarrow> string" where
  "upper s = concat (map upper_char s)"

text \<open>\<open>s.replace(old, new)\<close> for a non-empty \<open>old\<close>: left to right, without overlap.\<close>

fun replace :: "string \<Rightarrow> string \<Rightarrow> string \<Rightarrow> string" where
  "replace old new [] = []"
| "replace old new (c # cs) =
     (if old \<noteq> [] \<and> prefix old (c # cs)
      then new @ replace old new (drop (length old - 1) cs)
      else c # replace old new cs)"

text \<open>\<open>str(n)\<close> for a natural number, and zero-padded fields of width two and four.\<close>

definition digit_char :: "nat \<Rightarrow> char" where
  "digit_char d = char_of (48 + d)"

function str_nat :: "nat \<Rightarrow> string" where
  "str_nat n = (if n < 10 then [digit_char n] else str_nat (n div 10) @ [digit_char (n mod 10)])"
  by pat_completeness auto
termination
  by (relation "measure id") auto

declare str_nat.simps [simp del]

definition pad2 :: "nat \<Rightarrow> string" where
  "pad2 n = (if n < 10 then CHR ''0'' # str_nat n else str_nat n)"

definition pad4 :: "nat \<Rightarrow> string" where
  "pad4 n = replicate (4 - length (str_nat n)) (CHR ''0'') @ str_nat n"

section \<open>Integers from text\<close>

text \<open>
  \<open>int(s)\<close> in base ten: blanks around the number, an optional sign, then digits in
  which single underscores may separate digits. \<open>None\<close> is the \<open>ValueError\<close>. The
  blanks that \<open>int\<close> skips are not all of \<open>str.isspace\<close>: U+001C..U+001F are refused.
  The interpreter's limit on the number of digits is not modelled.
\<close>

definition int_space :: "char \<Rightarrow> bool" where
  "int_space c = (c \<in> set [CHR 0x09, CHR 0x0A, CHR 0x0B, CHR 0x0C, CHR 0x0D, CHR 0x20,
     CHR 0x85, CHR 0xA0])"

fun int_body :: "nat \<Rightarrow> string \<Rightarrow> nat option" where
  "int_body acc [] = Some acc"
| "int_body acc [c] = (if isdigit c then Some (10 * acc + digit_val c) else None)"
| "int_body acc (c # d # cs) =
     (if isdigit c then int_body (10 * acc + digit_val c) (d # cs)
      else if c = CHR ''_'' \<and> isdigit d then int_body (10 * acc + digit_val d) cs
      else None)"

definition int_unsigned :: "string \<Rightarrow> nat option" where
  "int_unsigned s =
     (case s of [] \<Rightarrow> None
      | c # cs \<Rightarrow> if isdigit c then int_body (digit_val c) cs else None)"

definition py_int :: "string \<Rightarrow> int option" where
  "py_int s =
     (let t = rev (dropWhile int_space (rev (dropWhile int_space s)))
      in case t of [] \<Rightarrow> None
         | c # cs \<Rightarrow>
             if c = CHR ''-'' then map_option (\<lambda>n. - int n) (int_unsigned cs)
             else if c = CHR ''+'' then map_option int (int_unsigned cs)
             else map_option int (int_unsigned t))"

section \<open>Date and time values\<close>

record datetime =
  year :: int
  month :: int
  day :: int
  hour :: int
  minute :: int
  second :: int

text \<open>
  A \<open>tzinfo\<close> is either \<open>timezone(timedelta(hours=h))\<close> or a \<open>ZoneInfo\<close> loaded from
  the zone database under its key.
\<close>

datatype tzinfo = FixedOffset int | ZoneInfo string

definition UTC :: tzinfo where
  "UTC = FixedOffset 0"

text \<open>
  \<open>timezone(timedelta(hours=hours))\<close>: a \<open>ValueError\<close> unless the offset lies strictly
  between minus and plus twenty-four hours (an \<open>OverflowError\<close> of \<open>timedelta\<close> for
  huge values falls in the same branch).
\<close>

definition timezone :: "int \<Rightarrow> tzinfo option" where
  "timezone hours = (if - 24 < hours \<and> hours < 24 then Some (FixedOffset hours) else None)"

text \<open>
  The zone database is a parameter: \<open>zones key\<close> is the \<open>utcoffset\<close> of the zone in
  seconds, as a function of the local time, or \<open>None\<close> when \<open>ZoneInfo(key)\<close> raises.
\<close>

type_synonym zonedb = "string \<Rightarrow> (datetime \<Rightarrow> int) option"

definition resolve_tz :: "zonedb \<Rightarrow> string option \<Rightarrow> tzinfo" where
  "resolve_tz zones tz_str =
     (let s = strip (case tz_str of None \<Rightarrow> '''' | Some t \<Rightarrow> t)
      in if prefix ''UTC'' (upper s) \<and> (CHR ''+'' \<in> set s \<or> CHR ''-'' \<in> set s)
         then (case py_int (replace ''UTC'' '''' s) of
                 None \<Rightarrow> UTC
               | Some hours \<Rightarrow> (case timezone hours of None \<Rightarrow> UTC | Some tz \<Rightarrow> tz))
         else (case zones s of None \<Rightarrow> UTC | Some off \<Rightarrow> ZoneInfo s))"

text \<open>
  \<open>tz_from_row_offset\<close>: \<open>str(None)\<close> is the text \<open>None\<close>, which \<open>int\<close> refuses.
\<close>

definition tz_from_row_offset :: "string option \<Rightarrow> tzinfo option" where
  "tz_from_row_offset offset_str =
     (case py_int (strip (case offset_str of None \<Rightarrow> ''None'' | Some t \<Rightarrow> t)) of
        None \<Rightarrow> None
      | Some hours \<Rightarrow> timezone hours)"

section \<open>Header and field helpers\<close>

text \<open>
  A row of \<open>csv.DictReader\<close> is a dictionary from the headers to the fields of the line,
  kept here as the list of its items (the keys of a dictionary are distinct); a short
  line is filled with \<open>None\<close>. \<open>row.get(header)\<close> is \<open>None\<close> for a missing key and
  for such a \<open>None\<close>. A header of the file may itself be \<open>None\<close>; the header map is a
  dictionary from cleaned names to headers.
\<close>

type_synonym row = "(string \<times> string option) list"

definition row_get :: "row \<Rightarrow> string \<Rightarrow> string option" where
  "row_get row k = (case map_of row k of None \<Rightarrow> None | Some v \<Rightarrow> v)"

type_synonym header_map = "string \<rightharpoonup> string option"

text \<open>
  The cleaning chain: remove U+FEFF, turn U+00A0 into a blank, \<open>strip\<close>, \<open>lower\<close>.
  U+FEFF is no character of the model, so its removal changes nothing here.
\<close>

definition clean_text :: "string \<Rightarrow> string" where
  "clean_text h = lower (strip (replace [CHR 0xA0] '' '' h))"

definition clean :: "string option \<Rightarrow> string" where
  "clean h = (case h of None \<Rightarrow> [] | Some t \<Rightarrow> clean_text t)"

definition normalize_headers :: "string option list option \<Rightarrow> header_map" where
  "normalize_headers fieldnames =
     foldl (\<lambda>m h. m(clean h \<mapsto> h)) Map.empty
       (case fieldnames of None \<Rightarrow> [] | Some fs \<Rightarrow> fs)"

fun get_val :: "row \<Rightarrow> header_map \<Rightarrow> string list \<Rightarrow> string option" where
  "get_val row header_map [] = None"
| "get_val row header_map (cand # candidates) =
     (case header_map (clean_text cand) of
        Some (Some orig) \<Rightarrow>
          (case row_get row orig of
             Some val \<Rightarrow> Some val
           | None \<Rightarrow> get_val row header_map candidates)
      | _ \<Rightarrow> get_val row header_map candidates)"

definition or_None :: "string \<Rightarrow> string option" where
  "or_None s = (if s = [] then None else Some s)"

definition safe_str :: "string option \<Rightarrow> string option" where
  "safe_str x = (case x of None \<Rightarrow> None | Some t \<Rightarrow> or_None (strip t))"

definition normalize_phone :: "string option \<Rightarrow> string option" where
  "normalize_phone val = (case val of None \<Rightarrow> None | Some t \<Rightarrow> or_None (filter isdigit t))"

definition LEAD_KEYS :: "string list" where
  "LEAD_KEYS = [''lead_id'', ''vendor_lead_code'', ''LeadID'']"

fun pick_lead_id_from :: "row \<Rightarrow> header_map \<Rightarrow> string list \<Rightarrow> string option" where
  "pick_lead_id_from row header_map [] =
     safe_str (get_val row header_map [''vendor_lead_code'', ''lead_id''])"
| "pick_lead_id_from row header_map (k # ks) =
     (case get_val row header_map [k] of
        Some v \<Rightarrow> if v \<noteq> [] then Some (strip v) else pick_lead_id_from row header_map ks
      | None \<Rightarrow> pick_lead_id_from row header_map ks)"

definition pick_lead_id :: "row \<Rightarrow> header_map \<Rightarrow> string option" where
  "pick_lead_id row header_map = pick_lead_id_from row header_map LEAD_KEYS"

section \<open>The calendar of \<open>datetime\<close>\<close>

definition is_leap :: "int \<Rightarrow> bool" where
  "is_leap y = (y mod 4 = 0 \<and> (y mod 100 \<noteq> 0 \<or> y mod 400 = 0))"

definition DAYS_IN_MONTH :: "int list" where
  "DAYS_IN_MONTH = [- 1, 31, 28, 31, 30, 31, 30, 31, 31, 30, 31, 30, 31]"

definition DAYS_BEFORE_MONTH :: "int list" where
  "DAYS_BEFORE_MONTH = [- 1, 0, 31, 59, 90, 120, 151, 181, 212, 243, 273, 304, 334]"

definition days_before_year :: "int \<Rightarrow> int" where
  "days_before_year yr = (let y = yr - 1 in y * 365 + y div 4 - y div 100 + y div 400)"

definition days_in_month :: "int \<Rightarrow> int \<Rightarrow> int" where
  "days_in_month yr m = (if m = 2 \<and> is_leap yr then 29 else DAYS_IN_MONTH ! nat m)"

definition days_before_month :: "int \<Rightarrow> int \<Rightarrow> int" where
  "days_before_month yr m = DAYS_BEFORE_MONTH ! nat m + (if m > 2 \<and> is_leap yr then 1 else 0)"

definition ymd2ord :: "int \<Rightarrow> int \<Rightarrow> int \<Rightarrow> int" where
  "ymd2ord yr m d = days_before_year yr + days_before_month yr m + d"

definition DI400Y :: int where "DI400Y = 146097"

definition DI100Y :: int where "DI100Y = 36524"

definition DI4Y :: int where "DI4Y = 1461"

definition MAXORDINAL :: int where "MAXORDINAL = 3652059"

definition ord2ymd :: "int \<Rightarrow> int \<times> int \<times> int" where
  "ord2ymd n0 =
     (let n = n0 - 1;
          n400 = n div DI400Y; n = n mod DI400Y;
          yr = n400 * 400 + 1;
          n100 = n div DI100Y; n = n mod DI100Y;
          n4 = n div DI4Y; n = n mod DI4Y;
          n1 = n div 365; n = n mod 365;
          yr = yr + n100 * 100 + n4 * 4 + n1
      in if n1 = 4 \<or> n100 = 4 then (yr - 1, 12, 31)
         else
           let leapyear = (n1 = 3 \<and> (n4 \<noteq> 24 \<or> n100 = 3));
               m = (n + 50) div 32;
               preceding = DAYS_BEFORE_MONTH ! nat m + (if m > 2 \<and> leapyear then 1 else 0)
           in if preceding > n
              then let m = m - 1;
                       preceding = preceding
                         - (DAYS_IN_MONTH ! nat m + (if m = 2 \<and> leapyear then 1 else 0))
                   in (yr, m, n - preceding + 1)
              else (yr, m, n - preceding + 1))"

text \<open>The checks of the \<open>datetime\<close> constructor (a \<open>ValueError\<close> when one fails).\<close>

definition valid_datetime :: "datetime \<Rightarrow> bool" where
  "valid_datetime dt =
     (1 \<le> year dt \<and> year dt \<le> 9999 \<and> 1 \<le> month dt \<and> month dt \<le> 12
      \<and> 1 \<le> day dt \<and> day dt \<le> days_in_month (year dt) (month dt)
      \<and> 0 \<le> hour dt \<and> hour dt \<le> 23 \<and> 0 \<le> minute dt \<and> minute dt \<le> 59
      \<and> 0 \<le> second dt \<and> second dt \<le> 59)"

datatype exn = OverflowError

definition utcoffset :: "zonedb \<Rightarrow> tzinfo \<Rightarrow> datetime \<Rightarrow> int" where
  "utcoffset zones tz dt =
     (case tz of
        FixedOffset h \<Rightarrow> h * 3600
      | ZoneInfo key \<Rightarrow> (case zones key of Some off \<Rightarrow> off dt | None \<Rightarrow> 0))"

text \<open>
  \<open>dt.replace(tzinfo=tz).astimezone(UTC)\<close>. A zone that is the \<open>timezone.utc\<close> object
  itself returns the value as it is; otherwise the offset is subtracted on the ordinal
  of the day, and a day outside \<open>1..MAXORDINAL\<close> is an \<open>OverflowError\<close>.
\<close>

definition astimezone_utc :: "zonedb \<Rightarrow> tzinfo \<Rightarrow> datetime \<Rightarrow> exn + datetime" where
  "astimezone_utc zones tz dt =
     (if tz = UTC then Inr dt
      else
        let total = ymd2ord (year dt) (month dt) (day dt) * 86400
                      + hour dt * 3600 + minute dt * 60 + second dt - utcoffset zones tz dt;
            days = total div 86400;
            rem = total mod 86400
        in if 0 < days \<and> days \<le> MAXORDINAL
           then (case ord2ymd days of
                   (y, m, d) \<Rightarrow>
                     Inr \<lparr>year = y, month = m, day = d, hour = rem div 3600,
                          minute = rem mod 3600 div 60, second = rem mod 60\<rparr>)
           else Inl OverflowError)"

text \<open>
  \<open>isoformat()\<close> of a value in UTC without microseconds, and
  \<open>strftime("%Y-%m-%d %H:%M")\<close>, whose year field the C library of Linux does not pad.
\<close>

definition isoformat :: "datetime \<Rightarrow> string" where
  "isoformat dt =
     pad4 (nat (year dt)) @ ''-'' @ pad2 (nat (month dt)) @ ''-'' @ pad2 (nat (day dt))
     @ ''T'' @ pad2 (nat (hour dt)) @ '':'' @ pad2 (nat (minute dt)) @ '':''
     @ pad2 (nat (second dt)) @ ''+00:00''"

definition strftime_minute :: "datetime \<Rightarrow> string" where
  "strftime_minute dt =
     str_nat (nat (year dt)) @ ''-'' @ pad2 (nat (month dt)) @ ''-'' @ pad2 (nat (day dt))
     @ '' '' @ pad2 (nat (hour dt)) @ '':'' @ pad2 (nat (minute dt))"

section \<open>\<open>datetime.strptime\<close>\<close>

text \<open>
  \<open>strptime\<close> turns the format into a regular expression, matches it at the start of the
  text and refuses a match that leaves text over. A directive is a named group whose
  alternatives are tried in order; an alternative is a sequence of character classes, a
  class being written as the string of its characters. A run of blanks in the format is
  \<open>\s+\<close>; any other character stands for itself. The table holds the directives that
  \<open>DT_FORMATS\<close> uses, with \<open>%p\<close> as in the C locale (\<open>am\<close>, \<open>pm\<close>, any case).
\<close>

datatype re = Group char "string list list" | Lit char | Spaces

definition digits :: string where
  "digits = ''0123456789''"

definition directive :: "char \<Rightarrow> string list list option" where
  "directive c =
     (if c = CHR ''d'' then Some [[''3'', ''01''], [''12'', digits], [''0'', ''123456789''],
                                  [''123456789''], ['' '', ''123456789'']]
      else if c = CHR ''H'' then Some [[''2'', ''0123''], [''01'', digits], [digits]]
      else if c = CHR ''I'' then Some [[''1'', ''012''], [''0'', ''123456789''], [''123456789'']]
      else if c = CHR ''m'' then Some [[''1'', ''012''], [''0'', ''123456789''], [''123456789'']]
      else if c = CHR ''M'' then Some [[''012345'', digits], [digits]]
      else if c = CHR ''S'' then Some [[''6'', ''01''], [''012345'', digits], [digits]]
      else if c = CHR ''y'' then Some [[digits, digits]]
      else if c = CHR ''Y'' then Some [[digits, digits, digits, digits]]
      else if c = CHR ''p'' then Some [[''aA'', ''mM''], [''pP'', ''mM'']]
      else None)"

function pattern :: "string \<Rightarrow> re list option" where
  "pattern [] = Some []"
| "pattern (c # cs) =
     (if c = CHR ''%'' then
        (case cs of
           [] \<Rightarrow> None
         | d # rest \<Rightarrow>
             (case directive d of
                None \<Rightarrow> None
              | Some alts \<Rightarrow> map_option ((#) (Group d alts)) (pattern rest)))
      else if isspace c then map_option ((#) Spaces) (pattern (dropWhile isspace cs))
      else map_option ((#) (Lit c)) (pattern cs))"
  by pat_completeness auto
termination
  by (relation "measure length") (auto simp: le_imp_less_Suc length_dropWhile_le)

fun match_seq :: "string list \<Rightarrow> string \<Rightarrow> (string \<times> string) option" where
  "match_seq [] s = Some ([], s)"
| "match_seq (k # ks) [] = None"
| "match_seq (k # ks) (c # cs) =
     (if c \<in> set k then map_option (\<lambda>(m, r). (c # m, r)) (match_seq ks cs) else None)"

text \<open>
  All the ways the expression matches a prefix of the text, in the order in which a
  backtracking matcher finds them: each is the groups found and the text left over.
\<close>

fun matches :: "re list \<Rightarrow> string \<Rightarrow> ((char \<times> string) list \<times> string) list" where
  "matches [] s = [([], s)]"
| "matches (Lit l # rs) s =
     (case s of [] \<Rightarrow> [] | c # cs \<Rightarrow> if c = l then matches rs cs else [])"
| "matches (Spaces # rs) s =
     concat (map (\<lambda>k. matches rs (drop k s)) (rev [1..<Suc (length (takeWhile isspace s))]))"
| "matches (Group g alts # rs) s =
     concat (map (\<lambda>alt. case match_seq alt s of
                          None \<Rightarrow> []
                        | Some (m, rest) \<Rightarrow> map (\<lambda>(found, r). ((g, m) # found, r)) (matches rs rest))
                 alts)"

text \<open>
  The values of the groups, in the order of the groups. The year starts at 1900, month
  and day at one, the time at zero; every format of \<open>DT_FORMATS\<close> sets the year.
\<close>

definition group_value :: "(char \<times> string) list \<Rightarrow> char \<times> string \<Rightarrow> datetime \<Rightarrow> datetime option"
  where
  "group_value found g dt =
     (let k = fst g in
      if k = CHR ''p'' then Some dt
      else
        (case py_int (snd g) of
           None \<Rightarrow> None
         | Some v \<Rightarrow>
             if k = CHR ''y'' then Some (dt\<lparr>year := (if v \<le> 68 then v + 2000 else v + 1900)\<rparr>)
             else if k = CHR ''Y'' then Some (dt\<lparr>year := v\<rparr>)
             else if k = CHR ''m'' then Some (dt\<lparr>month := v\<rparr>)
             else if k = CHR ''d'' then Some (dt\<lparr>day := v\<rparr>)
             else if k = CHR ''H'' then Some (dt\<lparr>hour := v\<rparr>)
             else if k = CHR ''I'' then
               (let ampm = lower (case map_of found (CHR ''p'') of None \<Rightarrow> [] | Some t \<Rightarrow> t)
                in if ampm = [] \<or> ampm = ''am''
                   then Some (dt\<lparr>hour := (if v = 12 then 0 else v)\<rparr>)
                   else if ampm = ''pm''
                   then Some (dt\<lparr>hour := (if v \<noteq> 12 then v + 12 else v)\<rparr>)
                   else Some (dt\<lparr>hour := v\<rparr>))
             else if k = CHR ''M'' then Some (dt\<lparr>minute := v\<rparr>)
             else if k = CHR ''S'' then Some (dt\<lparr>second := v\<rparr>)
             else Some dt))"

fun group_values :: "(char \<times> string) list \<Rightarrow> (char \<times> string) list \<Rightarrow> datetime \<Rightarrow> datetime option"
  where
  "group_values found [] dt = Some dt"
| "group_values found (g # gs) dt =
     (case group_value found g dt of None \<Rightarrow> None | Some dt' \<Rightarrow> group_values found gs dt')"

text \<open>\<open>None\<close> is the \<open>ValueError\<close> of \<open>strptime\<close>.\<close>

definition strptime :: "string \<Rightarrow> string \<Rightarrow> datetime option" where
  "strptime data_string format =
     (case pattern format of
        None \<Rightarrow> None
      | Some rs \<Rightarrow>
          (case matches rs data_string of
             [] \<Rightarrow> None
           | (found, rest) # _ \<Rightarrow>
               if rest \<noteq> [] then None
               else
                 (case group_values found found
                         \<lparr>year = 1900, month = 1, day = 1, hour = 0, minute = 0, second = 0\<rparr> of
                    None \<Rightarrow> None
                  | Some dt \<Rightarrow> if valid_datetime dt then Some dt else None)))"

section \<open>Date parsing\<close>

definition DT_FORMATS :: "string list" where
  "DT_FORMATS =
     [''%Y-%m-%d %H:%M:%S'',
      ''%Y-%m-%d %H:%M'',
      ''%m/%d/%Y %H:%M:%S'',
      ''%m/%d/%Y %H:%M'',
      ''%m/%d/%y %H:%M:%S'',
      ''%m/%d/%y %H:%M'',
      ''%m/%d/%y %I:%M %p'',
      ''%m/%d/%Y %I:%M %p'']"

text \<open>
  The loop of \<open>parse_date_local\<close> over the formats: a \<open>ValueError\<close> of \<open>strptime\<close> moves
  on to the next format, any other exception leaves the function.
\<close>

fun try_formats ::
  "zonedb \<Rightarrow> tzinfo \<Rightarrow> string \<Rightarrow> string list \<Rightarrow> exn + (string \<times> datetime) option" where
  "try_formats zones tzinfo txt [] = Inr None"
| "try_formats zones tzinfo txt (fmt # fmts) =
     (case strptime txt fmt of
        None \<Rightarrow> try_formats zones tzinfo txt fmts
      | Some dt_naive \<Rightarrow>
          (case astimezone_utc zones tzinfo dt_naive of
             Inl e \<Rightarrow> Inl e
           | Inr dt_utc \<Rightarrow> Inr (Some (txt, dt_utc))))"

text \<open>\<open>src_tz\<close> is the module constant \<open>SRC_TZ_OBJ\<close>.\<close>

definition parse_date_local ::
  "zonedb \<Rightarrow> tzinfo \<Rightarrow> string option \<Rightarrow> tzinfo option \<Rightarrow> exn + (string \<times> datetime) option" where
  "parse_date_local zones src_tz s tzinfo_override =
     (case s of
        None \<Rightarrow> Inr None
      | Some t \<Rightarrow>
          (let txt = strip t
           in if txt = [] then Inr None
              else try_formats zones
                     (case tzinfo_override of Some tz \<Rightarrow> tz | None \<Rightarrow> src_tz) txt DT_FORMATS))"

section \<open>SHA-256\<close>

text \<open>
  \<open>hashlib.sha256(dedup.encode()).hexdigest()\<close>: the UTF-8 bytes of the text (two bytes
  for a code point from U+0080 on), the hash function of FIPS 180-4 on them, and the
  eight words of the digest in lower-case hexadecimal. The round constants are the
  first thirty-two bits of the fractional parts of the cube roots of the first
  sixty-four primes, the initial hash value those of the square roots of the first
  eight primes.
\<close>

definition encode :: "string \<Rightarrow> 8 word list" where
  "encode s =
     concat (map (\<lambda>c. let n = (of_char c :: nat)
                       in if n < 128 then [of_nat n]
                          else [of_nat (192 + n div 64), of_nat (128 + n mod 64)]) s)"

definition K256 :: "32 word list" where
  "K256 =
     [1116352408, 1899447441, 3049323471, 3921009573, 961987163, 1508970993,
      2453635748, 2870763221, 3624381080, 310598401, 607225278, 1426881987,
      1925078388, 2162078206, 2614888103, 3248222580, 3835390401, 4022224774,
      264347078, 604807628, 770255983, 1249150122, 1555081692, 1996064986,
      2554220882, 2821834349, 2952996808, 3210313671, 3336571891, 3584528711,
      113926993, 338241895, 666307205, 773529912, 1294757372, 1396182291,
      1695183700, 1986661051, 2177026350, 2456956037, 2730485921, 2820302411,
      3259730800, 3345764771, 3516065817, 3600352804, 4094571909, 275423344,
      430227734, 506948616, 659060556, 883997877, 958139571, 1322822218,
      1537002063, 1747873779, 1955562222, 2024104815, 2227730452, 2361852424,
      2428436474, 2756734187, 3204031479, 3329325298]"

definition H256 :: "32 word list" where
  "H256 =
     [1779033703, 3144134277, 1013904242, 2773480762, 1359893119, 2600822924,
      528734635, 1541459225]"

definition rotr :: "nat \<Rightarrow> 32 word \<Rightarrow> 32 word" where
  "rotr n x = drop_bit n x OR push_bit (32 - n) x"

definition Ch :: "32 word \<Rightarrow> 32 word \<Rightarrow> 32 word \<Rightarrow> 32 word" where
  "Ch x y z = (x AND y) XOR (NOT x AND z)"

definition Maj :: "32 word \<Rightarrow> 32 word \<Rightarrow> 32 word \<Rightarrow> 32 word" where
  "Maj x y z = (x AND y) XOR (x AND z) XOR (y AND z)"

definition bsig0 :: "32 word \<Rightarrow> 32 word" where
  "bsig0 x = rotr 2 x XOR rotr 13 x XOR rotr 22 x"

definition bsig1 :: "32 word \<Rightarrow> 32 word" where
  "bsig1 x = rotr 6 x XOR rotr 11 x XOR rotr 25 x"

definition ssig0 :: "32 word \<Rightarrow> 32 word" where
  "ssig0 x = rotr 7 x XOR rotr 18 x XOR drop_bit 3 x"

definition ssig1 :: "32 word \<Rightarrow> 32 word" where
  "ssig1 x = rotr 17 x XOR rotr 19 x XOR drop_bit 10 x"

definition pad_message :: "8 word list \<Rightarrow> 8 word list" where
  "pad_message m =
     (let l = length m
      in m @ [0x80] @ replicate ((119 - l mod 64) mod 64) 0
           @ map (\<lambda>i. ucast (drop_bit (8 * (7 - i)) (of_nat (8 * l) :: 64 word))) [0..<8])"

fun be_words :: "8 word list \<Rightarrow> 32 word list" where
  "be_words (a # b # c # d # rest) =
     (push_bit 24 (ucast a) OR push_bit 16 (ucast b) OR push_bit 8 (ucast c) OR ucast d)
       # be_words rest"
| "be_words _ = []"

fun schedule :: "nat \<Rightarrow> 32 word list \<Rightarrow> 32 word list" where
  "schedule 0 w = w"
| "schedule (Suc n) w =
     (let t = length w
      in schedule n
           (w @ [ssig1 (w ! (t - 2)) + w ! (t - 7) + ssig0 (w ! (t - 15)) + w ! (t - 16)]))"

definition sha_round :: "32 word \<times> 32 word \<Rightarrow> 32 word list \<Rightarrow> 32 word list" where
  "sha_round kw s =
     (case s of
        [a, b, c, d, e, f, g, h] \<Rightarrow>
          (let t1 = h + bsig1 e + Ch e f g + fst kw + snd kw;
               t2 = bsig0 a + Maj a b c
           in [t1 + t2, a, b, c, d + t1, e, f, g])
      | _ \<Rightarrow> s)"

definition compress :: "32 word list \<Rightarrow> 8 word list \<Rightarrow> 32 word list" where
  "compress h block =
     map2 (+) h (fold sha_round (zip K256 (schedule 48 (be_words block))) h)"

function sha256_blocks :: "32 word list \<Rightarrow> 8 word list \<Rightarrow> 32 word list" where
  "sha256_blocks h m =
     (if m = [] then h else sha256_blocks (compress h (take 64 m)) (drop 64 m))"
  by pat_completeness auto
termination
  by (relation "measure (\<lambda>(h, m). length m)") auto

declare sha256_blocks.simps [simp del]

definition sha256 :: "8 word list \<Rightarrow> 32 word list" where
  "sha256 m = sha256_blocks H256 (pad_message m)"

definition hex_word :: "32 word \<Rightarrow> string" where
  "hex_word w = map (\<lambda>i. ''0123456789abcdef'' ! unat (drop_bit (4 * (7 - i)) w AND 15)) [0..<8]"

definition hexdigest :: "32 word list \<Rightarrow> string" where
  "hexdigest ws = concat (map hex_word ws)"

section \<open>Configuration\<close>

record config =
  BUCKET_PREFIX :: string
  SOURCE_TZ :: string
  TIME_TOL_SEC :: int
  TMP_PREFIX :: string

text \<open>The values taken when the environment sets none of the variables.\<close>

definition default_config :: config where
  "default_config =
     \<lparr>BUCKET_PREFIX = ''call-exports/'', SOURCE_TZ = ''UTC-7'', TIME_TOL_SEC = 60,
      TMP_PREFIX = ''tmp/normalized/''\<rparr>"

definition SRC_TZ_OBJ :: "config \<Rightarrow> zonedb \<Rightarrow> tzinfo" where
  "SRC_TZ_OBJ cfg zones = resolve_tz zones (Some (SOURCE_TZ cfg))"

section \<open>The record of one row\<close>

text \<open>
  The dictionary \<open>mapped\<close> as it is first built, and the three entries added to it
  afterwards. The entry \<open>_raw\<close> is \<open>json.dumps(row)\<close>; it is kept as the row.
\<close>

record mapped =
  Date :: string
  FirstName :: "string option"
  LastName :: "string option"
  Address :: "string option"
  CallNotes :: "string option"
  TalkTime :: "string option"
  SiteName :: "string option"
  Phone :: "string option"
  Email :: "string option"
  LeadID :: "string option"
  ListDescription :: "string option"
  ListID :: "string option"
  Disposition :: "string option"
  TermReason :: "string option"
  SubscriberID :: "string option"
  Source :: "string option"
  LeadType :: "string option"
  SourceLocalTime :: string
  SourceTimezone :: string
  SourceFile :: string

record canonical = mapped +
  DedupKey :: string
  RowHash :: string
  raw :: row

text \<open>\<open>str(tz)\<close> of a \<open>timezone\<close> built from whole hours, and of a \<open>ZoneInfo\<close>.\<close>

definition str_tz :: "tzinfo \<Rightarrow> string" where
  "str_tz tz =
     (case tz of
        FixedOffset h \<Rightarrow>
          if h = 0 then ''UTC''
          else ''UTC'' @ (if h < 0 then ''-'' else ''+'') @ pad2 (nat \<bar>h\<bar>) @ '':00''
      | ZoneInfo key \<Rightarrow> key)"

definition or_empty :: "string option \<Rightarrow> string" where
  "or_empty x = (case x of None \<Rightarrow> [] | Some t \<Rightarrow> t)"

text \<open>\<open>sep.join(parts)\<close>.\<close>

fun join :: "string \<Rightarrow> string list \<Rightarrow> string" where
  "join sep [] = []"
| "join sep [p] = p"
| "join sep (p # q # ps) = p @ sep @ join sep (q # ps)"

definition key_parts :: "'a mapped_scheme \<Rightarrow> datetime \<Rightarrow> string list" where
  "key_parts m dt_utc =
     [or_empty (Phone m), or_empty (LeadID m), or_empty (ListID m), or_empty (Disposition m),
      strftime_minute dt_utc]"

text \<open>
  The body of the loop over the rows for one row: \<open>Inr None\<close> is the row that is
  counted as bad, \<open>Inr (Some r)\<close> the record written to the buffer, \<open>Inl e\<close> an
  exception that leaves \<open>main\<close>.
\<close>

definition map_row ::
  "config \<Rightarrow> zonedb \<Rightarrow> string \<Rightarrow> header_map \<Rightarrow> row \<Rightarrow> exn + canonical option" where
  "map_row cfg zones source_file header_map row =
     (let row_tz = tz_from_row_offset (get_val row header_map [''gmt_offset_now''])
      in case parse_date_local zones (SRC_TZ_OBJ cfg zones)
                (get_val row header_map [''call_date'']) row_tz of
           Inl e \<Rightarrow> Inl e
         | Inr None \<Rightarrow> Inr None
         | Inr (Some (src_txt, dt_utc)) \<Rightarrow>
             (let phone = normalize_phone
                            (get_val row header_map [''phone_number_dialed'', ''phone_number'']);
                  lead_id = pick_lead_id row header_map;
                  m = \<lparr>Date = isoformat dt_utc,
                       FirstName = safe_str (get_val row header_map [''first_name'']),
                       LastName = safe_str (get_val row header_map [''last_name'']),
                       Address = safe_str (get_val row header_map [''address1'']),
                       CallNotes = safe_str (get_val row header_map [''call_notes'']),
                       TalkTime = safe_str (get_val row header_map [''campaign_id'']),
                       SiteName = None,
                       Phone = phone,
                       Email = safe_str (get_val row header_map [''email'']),
                       LeadID = (case lead_id of None \<Rightarrow> None | Some t \<Rightarrow> or_None (strip t)),
                       ListDescription = safe_str (get_val row header_map [''list_description'']),
                       ListID = safe_str (get_val row header_map [''list_id'']),
                       Disposition = safe_str (get_val row header_map [''status'']),
                       TermReason = None,
                       SubscriberID = None,
                       Source = None,
                       LeadType = None,
                       SourceLocalTime = src_txt,
                       SourceTimezone =
                         (case row_tz of Some tz \<Rightarrow> str_tz tz | None \<Rightarrow> SOURCE_TZ cfg),
                       SourceFile = source_file\<rparr>;
                  dedup = join ''|'' (key_parts m dt_utc)
              in Inr (Some (mapped.extend m
                      (canonical.fields dedup (hexdigest (sha256 (encode dedup))) row)))))"

section \<open>The loop over the rows\<close>

record counters =
  total_rows :: nat
  good :: nat
  bad :: nat
  buf :: "canonical list"

fun process_rows ::
  "config \<Rightarrow> zonedb \<Rightarrow> string \<Rightarrow> header_map \<Rightarrow> row list \<Rightarrow> counters \<Rightarrow> exn + counters" where
  "process_rows cfg zones source_file header_map [] st = Inr st"
| "process_rows cfg zones source_file header_map (row # rows) st =
     (let st = st\<lparr>total_rows := total_rows st + 1\<rparr>
      in case map_row cfg zones source_file header_map row of
           Inl e \<Rightarrow> Inl e
         | Inr None \<Rightarrow>
             process_rows cfg zones source_file header_map rows (st\<lparr>bad := bad st + 1\<rparr>)
         | Inr (Some r) \<Rightarrow>
             process_rows cfg zones source_file header_map rows
               (st\<lparr>buf := buf st @ [r], good := good st + 1\<rparr>))"

section \<open>The entry point\<close>

text \<open>
  The calls that \<open>main\<close> makes on the storage and query clients, with their arguments.
  The batch is kept as the list of its records, one per line of the uploaded text.
\<close>

datatype effect =
    Download string string
  | Upload string string "canonical list"
  | LoadToStaging string
  | RunMerge int
  | AuditInsert string nat nat string
  | CopyBlob string string string
  | DeleteBlob string string

datatype failure = Exception exn | CallFailed effect

datatype outcome = Returned | Raised failure

text \<open>
  The outside world: the zone database, what \<open>csv.DictReader\<close> reads from an object
  (its \<open>fieldnames\<close> and its rows; \<open>None\<close> when the download raises), and the calls
  that raise.
\<close>

record world =
  zoneinfo :: zonedb
  objects :: "string \<Rightarrow> string \<Rightarrow> (string option list option \<times> row list) option"
  raises :: "effect \<Rightarrow> bool"

record event =
  bucket :: string
  name :: string

text \<open>
  The calls are awaited one after the other and no call uses the result of an earlier
  one: the first that raises ends the invocation, the calls after it are not made.
\<close>

fun perform :: "(effect \<Rightarrow> bool) \<Rightarrow> effect list \<Rightarrow> effect list \<times> outcome" where
  "perform fails [] = ([], Returned)"
| "perform fails (e # es) =
     (if fails e then ([], Raised (CallFailed e))
      else (case perform fails es of (done_calls, out) \<Rightarrow> (e # done_calls, out)))"

text \<open>\<open>object_name.rsplit('/', 1)[-1]\<close>.\<close>

definition rsplit_last :: "string \<Rightarrow> string" where
  "rsplit_last s = rev (takeWhile (\<lambda>c. c \<noteq> CHR ''/'') (rev s))"

text \<open>
  \<open>main\<close> returns the calls it completed, in order, and how it ended. What the code
  prints while it parses is no call and is left out.
\<close>

definition main :: "config \<Rightarrow> world \<Rightarrow> event \<Rightarrow> effect list \<times> outcome" where
  "main cfg w ev =
     (let bucket_name = bucket ev;
          object_name = name ev
      in if \<not> prefix (BUCKET_PREFIX cfg) object_name then ([], Returned)
         else
           (case objects w bucket_name object_name of
              None \<Rightarrow> ([], Raised (CallFailed (Download bucket_name object_name)))
            | Some (fieldnames, rows) \<Rightarrow>
                (let source_file = ''gs://'' @ bucket_name @ ''/'' @ object_name;
                     header_map = normalize_headers fieldnames;
                     tmp_key = TMP_PREFIX cfg @ object_name @ ''.ndjson''
                 in case process_rows cfg (zoneinfo w) source_file header_map rows
                           \<lparr>total_rows = 0, good = 0, bad = 0, buf = []\<rparr> of
                      Inl e \<Rightarrow> ([Download bucket_name object_name], Raised (Exception e))
                    | Inr st \<Rightarrow>
                        (case perform (raises w)
                                ((if good st > 0
                                  then [Upload bucket_name tmp_key (buf st),
                                        LoadToStaging (''gs://'' @ bucket_name @ ''/'' @ tmp_key),
                                        RunMerge (TIME_TOL_SEC cfg)]
                                  else [])
                                 @ [AuditInsert source_file (total_rows st) (bad st)
                                      (''Processed good='' @ str_nat (good st) @ '', bad=''
                                         @ str_nat (bad st)),
                                    CopyBlob bucket_name object_name
                                      (''processed/'' @ rsplit_last object_name),
                                    DeleteBlob bucket_name object_name]) of
                           (done_calls, out) \<Rightarrow>
                             (Download bucket_name object_name # done_calls, out)))))"

section \<open>Notions used in the statements\<close>

text \<open>The counters before the first row, and the name \<open>main\<close> gives to the file.\<close>

definition start :: counters where
  "start = \<lparr>total_rows = 0, good = 0, bad = 0, buf = []\<rparr>"

definition source_file_of :: "event \<Rightarrow> string" where
  "source_file_of ev = ''gs://'' @ bucket ev @ ''/'' @ name ev"

text \<open>
  The calls that follow the loop, for the counters the loop ends with: what \<open>main\<close>
  hands to \<open>perform\<close>.
\<close>

definition planned :: "config \<Rightarrow> event \<Rightarrow> counters \<Rightarrow> effect list" where
  "planned cfg ev st =
     (if good st > 0
      then [Upload (bucket ev) (TMP_PREFIX cfg @ name ev @ ''.ndjson'') (buf st),
            LoadToStaging (''gs://'' @ bucket ev @ ''/'' @ TMP_PREFIX cfg @ name ev @ ''.ndjson''),
            RunMerge (TIME_TOL_SEC cfg)]
      else [])
     @ [AuditInsert (source_file_of ev) (total_rows st) (bad st)
          (''Processed good='' @ str_nat (good st) @ '', bad='' @ str_nat (bad st)),
        CopyBlob (bucket ev) (name ev) (''processed/'' @ rsplit_last (name ev)),
        DeleteBlob (bucket ev) (name ev)]"

text \<open>Every call an invocation made: those it completed and the one that raised.\<close>

definition calls_made :: "effect list \<times> outcome \<Rightarrow> effect list" where
  "calls_made res = fst res @ (case snd res of Raised (CallFailed e) \<Rightarrow> [e] | _ \<Rightarrow> [])"

definition batch_call :: "effect \<Rightarrow> bool" where
  "batch_call e =
     (case e of
        Upload b k recs \<Rightarrow> True
      | LoadToStaging uri \<Rightarrow> True
      | RunMerge tol \<Rightarrow> True
      | _ \<Rightarrow> False)"

definition audit_call :: "effect \<Rightarrow> bool" where
  "audit_call e = (case e of AuditInsert sf t b note \<Rightarrow> True | _ \<Rightarrow> False)"

text \<open>
  The instant the loop resolves for a row: the result of \<open>parse_date_local\<close> on its
  \<open>call_date\<close> under the zone of its \<open>gmt_offset_now\<close>.
\<close>

definition row_instant ::
  "config \<Rightarrow> zonedb \<Rightarrow> header_map \<Rightarrow> row \<Rightarrow> exn + (string \<times> datetime) option" where
  "row_instant cfg zones header_map row =
     parse_date_local zones (SRC_TZ_OBJ cfg zones) (get_val row header_map [''call_date''])
       (tz_from_row_offset (get_val row header_map [''gmt_offset_now'']))"

text \<open>
  No format of \<open>DT_FORMATS\<close> matches the text of a field: the field is missing, blank,
  or \<open>strptime\<close> refuses it under every format.
\<close>

definition no_format_matches :: "string option \<Rightarrow> bool" where
  "no_format_matches s =
     (case s of
        None \<Rightarrow> True
      | Some t \<Rightarrow> strip t = [] \<or> list_all (\<lambda>fmt. strptime (strip t) fmt = None) DT_FORMATS)"

text \<open>The value of a text of decimal digits.\<close>

definition decimal :: "string \<Rightarrow> nat" where
  "decimal ds = foldl (\<lambda>a c. 10 * a + digit_val c) 0 ds"

text \<open>Fields of the record of one row, when the row is accepted.\<close>

definition fingerprint_fields ::
  "exn + canonical option \<Rightarrow> (string option \<times> string \<times> string) option" where
  "fingerprint_fields res =
     (case res of Inr (Some r) \<Rightarrow> Some (Phone r, Date r, DedupKey r) | _ \<Rightarrow> None)"

definition identity_fields ::
  "exn + canonical option
     \<Rightarrow> (string option \<times> string option \<times> string option \<times> string option) option" where
  "identity_fields res =
     (case res of
        Inr (Some r) \<Rightarrow> Some (Phone r, LeadID r, ListID r, Disposition r)
      | _ \<Rightarrow> None)"

definition hashes :: "exn + canonical option \<Rightarrow> (string \<times> string) option" where
  "hashes res = (case res of Inr (Some r) \<Rightarrow> Some (DedupKey r, RowHash r) | _ \<Rightarrow> None)"

subsection \<open>Sample inputs\<close>

text \<open>An empty zone database, a world in which no call raises, a bucket of one file.\<close>

definition no_zones :: zonedb where
  "no_zones key = None"

text \<open>A zone database with one zone, seven hours behind UTC all year.\<close>

definition one_zone :: zonedb where
  "one_zone key = (if key = ''America/Phoenix'' then Some (\<lambda>dt. - 25200) else None)"

definition no_failure :: "effect \<Rightarrow> bool" where
  "no_failure e = False"

definition one_file ::
  "string option list option \<Rightarrow> row list \<Rightarrow> string \<Rightarrow> string
     \<Rightarrow> (string option list option \<times> row list) option" where
  "one_file fieldnames rows b n = Some (fieldnames, rows)"

definition sample_world :: "string option list option \<Rightarrow> row list \<Rightarrow> world" where
  "sample_world fieldnames rows =
     \<lparr>zoneinfo = no_zones, objects = one_file fieldnames rows, raises = no_failure\<rparr>"

definition sample_event :: event where
  "sample_event = \<lparr>bucket = ''exports'', name = ''call-exports/day1/calls.csv''\<rparr>"

definition other_event :: event where
  "other_event = \<lparr>bucket = ''exports'', name = ''uploads/calls.csv''\<rparr>"

text \<open>
  The row of the scenario of the specification, once with the phone under the header
  \<open>phone\<close> and once under \<open>phone_number\<close>.
\<close>

definition scenario_headers :: "string \<Rightarrow> string option list" where
  "scenario_headers phone_header =
     [Some phone_header, Some ''lead_id'', Some ''list_id'', Some ''status'',
      Some ''call_date'', Some ''gmt_offset_now'']"

definition scenario_row :: "string \<Rightarrow> row" where
  "scenario_row phone_header =
     [(phone_header, Some ''555-123-4567''), (''lead_id'', Some ''L1''),
      (''list_id'', Some ''A''), (''status'', Some ''SALE''),
      (''call_date'', Some ''9/2/25 11:02''), (''gmt_offset_now'', Some ''-4'')]"

text \<open>A file with the three columns \<open>list_id\<close>, \<open>status\<close> and \<open>call_date\<close>.\<close>

definition short_headers :: "string option list" where
  "short_headers = [Some ''list_id'', Some ''status'', Some ''call_date'']"

definition short_row :: "string \<Rightarrow> string \<Rightarrow> string \<Rightarrow> row" where
  "short_row list_id status call_date =
     [(''list_id'', Some list_id), (''status'', Some status), (''call_date'', Some call_date)]"

definition sample_rows :: "row list" where
  "sample_rows =
     [short_row ''A'' ''SALE'' ''9/2/25 11:02'', short_row ''A'' ''SALE'' ''yesterday'']"

definition rejected_rows :: "row list" where
  "rejected_rows = [short_row ''A'' ''SALE'' ''yesterday'', short_row ''B'' ''NA'' []]"

section \<open>Facts about the record of a row\<close>

lemma map_row_None_iff:
  "map_row cfg zones sf hm row = Inr None \<longleftrightarrow> row_instant cfg zones hm row = Inr None"
  by (auto simp: map_row_def row_instant_def Let_def split: sum.splits option.splits)

lemma map_row_Inl_iff:
  "map_row cfg zones sf hm row = Inl e \<longleftrightarrow> row_instant cfg zones hm row = Inl e"
  by (auto simp: map_row_def row_instant_def Let_def split: sum.splits option.splits)

lemma extend_sel:
  "Phone (mapped.extend m x) = Phone m"
  "LeadID (mapped.extend m x) = LeadID m"
  "ListID (mapped.extend m x) = ListID m"
  "Disposition (mapped.extend m x) = Disposition m"
  "Date (mapped.extend m x) = Date m"
  "SourceLocalTime (mapped.extend m x) = SourceLocalTime m"
  "SourceFile (mapped.extend m x) = SourceFile m"
  "DedupKey (mapped.extend m (canonical.fields a b c)) = a"
  "RowHash (mapped.extend m (canonical.fields a b c)) = b"
  "raw (mapped.extend m (canonical.fields a b c)) = c"
  by (simp_all add: mapped.defs canonical.defs)

lemma map_row_of_instant:
  assumes "row_instant cfg zones hm row = Inr (Some (txt, dt))"
  shows "\<exists>r. map_row cfg zones sf hm row = Inr (Some r)
           \<and> Date r = isoformat dt \<and> SourceLocalTime r = txt
           \<and> DedupKey r = join ''|'' [or_empty (Phone r), or_empty (LeadID r),
                 or_empty (ListID r), or_empty (Disposition r), strftime_minute dt]
           \<and> RowHash r = hexdigest (sha256 (encode (DedupKey r)))
           \<and> Phone r = normalize_phone (get_val row hm [''phone_number_dialed'', ''phone_number''])
           \<and> LeadID r = (case pick_lead_id row hm of None \<Rightarrow> None | Some t \<Rightarrow> or_None (strip t))
           \<and> ListID r = safe_str (get_val row hm [''list_id''])
           \<and> Disposition r = safe_str (get_val row hm [''status''])
           \<and> SourceFile r = sf \<and> raw r = row"
  using assms unfolding map_row_def row_instant_def Let_def
  by (simp add: extend_sel key_parts_def)

section \<open>Facts about the loop and the calls of \<open>main\<close>\<close>

lemma perform_Returned: "snd (perform f es) = Returned \<Longrightarrow> fst (perform f es) = es"
  by (induction es) (auto split: if_splits prod.splits)

lemma perform_calls_made: "set (calls_made (perform f es)) \<subseteq> set es"
  by (induction es)
    (auto simp: calls_made_def split: if_splits prod.splits outcome.splits failure.splits)

lemma perform_no_failure: "perform no_failure es = (es, Returned)"
  by (induction es) (auto simp: no_failure_def)

lemma process_rows_reject:
  "map_row cfg zones sf hm row = Inr None \<Longrightarrow>
   process_rows cfg zones sf hm (row # rows) st =
     process_rows cfg zones sf hm rows (st\<lparr>total_rows := total_rows st + 1, bad := bad st + 1\<rparr>)"
  by (simp add: Let_def)

lemma process_rows_accept:
  "map_row cfg zones sf hm row = Inr (Some r) \<Longrightarrow>
   process_rows cfg zones sf hm (row # rows) st =
     process_rows cfg zones sf hm rows
       (st\<lparr>total_rows := total_rows st + 1, buf := buf st @ [r], good := good st + 1\<rparr>)"
  by (simp add: Let_def)

lemma process_rows_raise:
  "map_row cfg zones sf hm row = Inl e \<Longrightarrow>
   process_rows cfg zones sf hm (row # rows) st = Inl e"
  by (simp add: Let_def)

lemma process_rows_counts:
  "process_rows cfg zones sf hm rows st = Inr st' \<Longrightarrow>
     total_rows st' = total_rows st + length rows
     \<and> good st' + bad st' = good st + bad st + length rows
     \<and> good st \<le> good st' \<and> bad st \<le> bad st'
     \<and> length (buf st') + good st = length (buf st) + good st'"
proof (induction rows arbitrary: st)
  case Nil
  then show ?case by simp
next
  case (Cons row rows)
  show ?case
  proof (cases "map_row cfg zones sf hm row")
    case (Inl e)
    with Cons.prems show ?thesis by (simp add: process_rows_raise)
  next
    case (Inr res)
    show ?thesis
    proof (cases res)
      case None
      with Inr Cons.prems Cons.IH[of "st\<lparr>total_rows := total_rows st + 1, bad := bad st + 1\<rparr>"]
      show ?thesis by (simp add: process_rows_reject)
    next
      case (Some r)
      with Inr Cons.prems
        Cons.IH[of "st\<lparr>total_rows := total_rows st + 1, buf := buf st @ [r], good := good st + 1\<rparr>"]
      show ?thesis by (simp add: process_rows_accept)
    qed
  qed
qed

lemma process_rows_append:
  "process_rows cfg zones sf hm (xs @ ys) st =
     (case process_rows cfg zones sf hm xs st of
        Inl e \<Rightarrow> Inl e
      | Inr s \<Rightarrow> process_rows cfg zones sf hm ys s)"
proof (induction xs arbitrary: st)
  case Nil
  show ?case by simp
next
  case (Cons x xs)
  show ?case
  proof (cases "map_row cfg zones sf hm x")
    case (Inl e)
    then show ?thesis by (simp add: process_rows_raise)
  next
    case (Inr res)
    then show ?thesis
      by (cases res) (simp_all add: process_rows_reject process_rows_accept Cons.IH del: process_rows.simps)
  qed
qed

lemma process_rows_step:
  assumes "process_rows cfg zones sf hm rows st = Inr st'" and "k < length rows"
  shows "\<exists>s s'. process_rows cfg zones sf hm (take k rows) st = Inr s
           \<and> process_rows cfg zones sf hm (take (Suc k) rows) st = Inr s'
           \<and> total_rows s' = total_rows s + 1
           \<and> ((good s' = good s + 1 \<and> bad s' = bad s) \<or> (good s' = good s \<and> bad s' = bad s + 1))"
proof -
  have split: "rows = take k rows @ (rows ! k # drop (Suc k) rows)"
    using assms(2) by (simp add: Cons_nth_drop_Suc)
  have "process_rows cfg zones sf hm (take k rows @ (rows ! k # drop (Suc k) rows)) st = Inr st'"
    using assms(1) split by simp
  then obtain s where s: "process_rows cfg zones sf hm (take k rows) st = Inr s"
    and rest: "process_rows cfg zones sf hm (rows ! k # drop (Suc k) rows) s = Inr st'"
    by (auto simp: process_rows_append split: sum.splits simp del: process_rows.simps)
  from rest have "process_rows cfg zones sf hm ([rows ! k] @ drop (Suc k) rows) s = Inr st'"
    by simp
  then obtain s' where s': "process_rows cfg zones sf hm [rows ! k] s = Inr s'"
    unfolding process_rows_append by (auto split: sum.splits)
  have "take (Suc k) rows = take k rows @ [rows ! k]"
    using assms(2) by (simp add: take_Suc_conv_app_nth)
  then have step: "process_rows cfg zones sf hm (take (Suc k) rows) st = Inr s'"
    using s s' by (simp add: process_rows_append del: process_rows.simps)
  from process_rows_counts[OF s']
  have "total_rows s' = total_rows s + 1" "good s' + bad s' = good s + bad s + 1"
    "good s \<le> good s'" "bad s \<le> bad s'" by simp_all
  then have "(good s' = good s + 1 \<and> bad s' = bad s) \<or> (good s' = good s \<and> bad s' = bad s + 1)"
    by arith
  with s step \<open>total_rows s' = total_rows s + 1\<close> show ?thesis by blast
qed

lemma main_processed:
  assumes "prefix (BUCKET_PREFIX cfg) (name ev)"
    and "objects w (bucket ev) (name ev) = Some (fieldnames, rows)"
    and "process_rows cfg (zoneinfo w) (source_file_of ev) (normalize_headers fieldnames) rows start = Inr st"
  shows "main cfg w ev =
           (Download (bucket ev) (name ev) # fst (perform (raises w) (planned cfg ev st)),
            snd (perform (raises w) (planned cfg ev st)))"
  using assms
  by (simp add: main_def Let_def source_file_of_def start_def planned_def split: prod.splits)

lemma main_raised:
  assumes "prefix (BUCKET_PREFIX cfg) (name ev)"
    and "objects w (bucket ev) (name ev) = Some (fieldnames, rows)"
    and "process_rows cfg (zoneinfo w) (source_file_of ev) (normalize_headers fieldnames) rows start = Inl e"
  shows "main cfg w ev = ([Download (bucket ev) (name ev)], Raised (Exception e))"
  using assms
  by (simp add: main_def Let_def source_file_of_def start_def)

lemma calls_made_main:
  assumes "prefix (BUCKET_PREFIX cfg) (name ev)"
    and "objects w (bucket ev) (name ev) = Some (fieldnames, rows)"
    and "process_rows cfg (zoneinfo w) (source_file_of ev) (normalize_headers fieldnames) rows start = Inr st"
  shows "set (calls_made (main cfg w ev))
           \<subseteq> insert (Download (bucket ev) (name ev)) (set (planned cfg ev st))"
proof -
  have "calls_made (main cfg w ev)
          = Download (bucket ev) (name ev) # calls_made (perform (raises w) (planned cfg ev st))"
    by (simp add: main_processed[OF assms] calls_made_def)
  then show ?thesis
    using perform_calls_made[of "raises w" "planned cfg ev st"] by auto
qed

section \<open>The sample file\<close>

lemma sample_instant_good:
  "row_instant default_config no_zones (normalize_headers (Some short_headers))
     (short_row ''A'' ''SALE'' ''9/2/25 11:02'')
   = Inr (Some (''9/2/25 11:02'',
        \<lparr>year = 2025, month = 9, day = 2, hour = 18, minute = 2, second = 0\<rparr>))"
  by code_simp

lemma sample_instant_bad:
  "row_instant default_config no_zones (normalize_headers (Some short_headers))
     (short_row ''A'' ''SALE'' ''yesterday'') = Inr None"
  by code_simp

lemma sample_prefix: "prefix (BUCKET_PREFIX default_config) (name sample_event)"
  by (simp add: default_config_def sample_event_def)

lemma sample_objects:
  "objects (sample_world fs rows) (bucket sample_event) (name sample_event) = Some (fs, rows)"
  by (simp add: sample_world_def one_file_def)

section \<open>Objects outside the input prefix\<close>

text \<open>
  Claim C9. When the name of the triggering object does not start with the configured
  input prefix, \<open>main\<close> returns at once and has made no call: the object is not read,
  no batch is written, neither the load nor the merge runs, no audit record is inserted,
  and the object is neither copied nor deleted.
\<close>

theorem main_ignores_other_prefix:
  "\<not> prefix (BUCKET_PREFIX cfg) (name ev) \<Longrightarrow> main cfg w ev = ([], Returned)"
  by (simp add: main_def Let_def)

theorem main_ignores_other_prefix_witness:
  "\<not> prefix (BUCKET_PREFIX default_config) (name other_event)
   \<and> main default_config (sample_world None []) other_event = ([], Returned)
   \<and> calls_made (main default_config (sample_world None []) other_event) = []"
  using main_ignores_other_prefix [of default_config other_event "sample_world None []"]
  by (simp add: default_config_def other_event_def calls_made_def)

section \<open>The counters of a file\<close>

text \<open>
  Claim C8. When the loop over the rows of a file completes, the total counter is the
  number of rows read and equals the accepted plus the rejected counter; each iteration
  adds one to the total and one to exactly one of the two other counters; and an audit
  call of the invocation carries that total and that rejected count.
\<close>

theorem counters_add_up:
  assumes "prefix (BUCKET_PREFIX cfg) (name ev)"
    and "objects w (bucket ev) (name ev) = Some (fieldnames, rows)"
    and "process_rows cfg (zoneinfo w) (source_file_of ev) (normalize_headers fieldnames)
           rows start = Inr st"
  shows "total_rows st = length rows \<and> total_rows st = good st + bad st
     \<and> (\<forall>k<length rows. \<exists>s s'.
           process_rows cfg (zoneinfo w) (source_file_of ev) (normalize_headers fieldnames)
             (take k rows) start = Inr s
         \<and> process_rows cfg (zoneinfo w) (source_file_of ev) (normalize_headers fieldnames)
             (take (Suc k) rows) start = Inr s'
         \<and> total_rows s' = total_rows s + 1
         \<and> ((good s' = good s + 1 \<and> bad s' = bad s) \<or> (good s' = good s \<and> bad s' = bad s + 1)))
     \<and> (\<forall>e\<in>set (calls_made (main cfg w ev)). audit_call e \<longrightarrow>
           e = AuditInsert (source_file_of ev) (total_rows st) (bad st)
                 (''Processed good='' @ str_nat (good st) @ '', bad='' @ str_nat (bad st)))"
proof -
  from process_rows_counts[OF assms(3)]
  have c: "total_rows st = length rows" "total_rows st = good st + bad st"
    by (simp_all add: start_def)
  have steps: "\<forall>k<length rows. \<exists>s s'.
           process_rows cfg (zoneinfo w) (source_file_of ev) (normalize_headers fieldnames)
             (take k rows) start = Inr s
         \<and> process_rows cfg (zoneinfo w) (source_file_of ev) (normalize_headers fieldnames)
             (take (Suc k) rows) start = Inr s'
         \<and> total_rows s' = total_rows s + 1
         \<and> ((good s' = good s + 1 \<and> bad s' = bad s) \<or> (good s' = good s \<and> bad s' = bad s + 1))"
    using process_rows_step[OF assms(3)] by blast
  have audit: "\<forall>e\<in>set (calls_made (main cfg w ev)). audit_call e \<longrightarrow>
           e = AuditInsert (source_file_of ev) (total_rows st) (bad st)
                 (''Processed good='' @ str_nat (good st) @ '', bad='' @ str_nat (bad st))"
    using calls_made_main[OF assms]
    by (auto simp: planned_def audit_call_def split: if_splits)
  from c steps audit show ?thesis by blast
qed

subsection \<open>The loop on the sample files\<close>

lemma sample_instant_blank:
  "row_instant default_config no_zones (normalize_headers (Some short_headers))
     (short_row ''B'' ''NA'' []) = Inr None"
  by code_simp

lemma sample_loop:
  "\<exists>r. process_rows default_config no_zones sf (normalize_headers (Some short_headers))
          sample_rows start = Inr \<lparr>total_rows = 2, good = 1, bad = 1, buf = [r]\<rparr>"
proof -
  from map_row_of_instant[OF sample_instant_good, of sf]
  obtain r where "map_row default_config no_zones sf (normalize_headers (Some short_headers))
                    (short_row ''A'' ''SALE'' ''9/2/25 11:02'') = Inr (Some r)"
    by blast
  moreover have "map_row default_config no_zones sf (normalize_headers (Some short_headers))
                    (short_row ''A'' ''SALE'' ''yesterday'') = Inr None"
    by (simp add: map_row_None_iff sample_instant_bad)
  ultimately show ?thesis
    by (intro exI[of _ r])
      (simp add: sample_rows_def start_def process_rows_accept process_rows_reject
        del: process_rows.simps(2))
qed

lemma rejected_loop:
  "process_rows default_config no_zones sf (normalize_headers (Some short_headers))
     rejected_rows start = Inr \<lparr>total_rows = 2, good = 0, bad = 2, buf = []\<rparr>"
proof -
  have "map_row default_config no_zones sf (normalize_headers (Some short_headers))
          (short_row ''A'' ''SALE'' ''yesterday'') = Inr None"
    by (simp add: map_row_None_iff sample_instant_bad)
  moreover have "map_row default_config no_zones sf (normalize_headers (Some short_headers))
          (short_row ''B'' ''NA'' []) = Inr None"
    by (simp add: map_row_None_iff sample_instant_blank)
  ultimately show ?thesis
    by (simp add: rejected_rows_def start_def process_rows_reject del: process_rows.simps(2))
qed

lemma sample_main_returns:
  assumes "process_rows default_config no_zones (source_file_of sample_event)
             (normalize_headers fs) rows start = Inr st"
  shows "main default_config (sample_world fs rows) sample_event
           = (Download (bucket sample_event) (name sample_event)
                # planned default_config sample_event st, Returned)"
proof -
  have z: "zoneinfo (sample_world fs rows) = no_zones" "raises (sample_world fs rows) = no_failure"
    by (simp_all add: sample_world_def)
  show ?thesis
    using main_processed[OF sample_prefix sample_objects, of fs rows st] assms
    by (simp add: z perform_no_failure)
qed

lemma str_nat_digits:
  "str_nat 0 = ''0''" "str_nat 1 = ''1''" "str_nat (Suc 0) = ''1''" "str_nat 2 = ''2''"
  by code_simp+

theorem counters_add_up_witness:
  "\<exists>st. process_rows default_config no_zones (source_file_of sample_event)
           (normalize_headers (Some short_headers)) sample_rows start = Inr st
     \<and> total_rows st = 2 \<and> good st = 1 \<and> bad st = 1
     \<and> AuditInsert (source_file_of sample_event) 2 1 ''Processed good=1, bad=1''
          \<in> set (calls_made (main default_config (sample_world (Some short_headers) sample_rows)
                               sample_event))"
proof -
  obtain r where loop: "process_rows default_config no_zones (source_file_of sample_event)
      (normalize_headers (Some short_headers)) sample_rows start
        = Inr \<lparr>total_rows = 2, good = 1, bad = 1, buf = [r]\<rparr>"
    using sample_loop by blast
  let ?st = "\<lparr>total_rows = 2, good = 1, bad = 1, buf = [r]\<rparr>"
  let ?w = "sample_world (Some short_headers) sample_rows"
  have loop': "process_rows default_config (zoneinfo ?w) (source_file_of sample_event)
      (normalize_headers (Some short_headers)) sample_rows start = Inr ?st"
    using loop by (simp add: sample_world_def)
  note cnt = counters_add_up[OF sample_prefix sample_objects loop']
  have mem: "AuditInsert (source_file_of sample_event) (total_rows ?st) (bad ?st)
               (''Processed good='' @ str_nat (good ?st) @ '', bad='' @ str_nat (bad ?st))
             \<in> set (calls_made (main default_config ?w sample_event))"
    by (simp add: sample_main_returns[OF loop] calls_made_def planned_def)
  from cnt have "total_rows ?st = length sample_rows" by blast
  with loop mem show ?thesis
    by (intro exI[of _ ?st]) (simp add: str_nat_digits)
qed

section \<open>Files without an accepted row\<close>

text \<open>
  Claim C6. For a file whose loop ends with no accepted row, the invocation makes no
  upload of a batch, no load and no merge; when it returns, it has read the object,
  inserted exactly one audit record, copied the object to the processed location and
  deleted it, in this order. With at least one accepted row, an invocation that returns
  has also uploaded the batch, loaded it and run the merge, before the audit record.
\<close>

theorem zero_accepted_rows:
  assumes "prefix (BUCKET_PREFIX cfg) (name ev)"
    and "objects w (bucket ev) (name ev) = Some (fieldnames, rows)"
    and "process_rows cfg (zoneinfo w) (source_file_of ev) (normalize_headers fieldnames)
           rows start = Inr st"
  shows "(good st = 0 \<longrightarrow>
            (\<forall>e\<in>set (calls_made (main cfg w ev)). \<not> batch_call e)
          \<and> (snd (main cfg w ev) = Returned \<longrightarrow>
               fst (main cfg w ev) =
                 [Download (bucket ev) (name ev),
                  AuditInsert (source_file_of ev) (total_rows st) (bad st)
                    (''Processed good='' @ str_nat (good st) @ '', bad='' @ str_nat (bad st)),
                  CopyBlob (bucket ev) (name ev) (''processed/'' @ rsplit_last (name ev)),
                  DeleteBlob (bucket ev) (name ev)]))
     \<and> (0 < good st \<longrightarrow> snd (main cfg w ev) = Returned \<longrightarrow>
           fst (main cfg w ev) =
             [Download (bucket ev) (name ev),
              Upload (bucket ev) (TMP_PREFIX cfg @ name ev @ ''.ndjson'') (buf st),
              LoadToStaging (''gs://'' @ bucket ev @ ''/'' @ TMP_PREFIX cfg @ name ev @ ''.ndjson''),
              RunMerge (TIME_TOL_SEC cfg),
              AuditInsert (source_file_of ev) (total_rows st) (bad st)
                (''Processed good='' @ str_nat (good st) @ '', bad='' @ str_nat (bad st)),
              CopyBlob (bucket ev) (name ev) (''processed/'' @ rsplit_last (name ev)),
              DeleteBlob (bucket ev) (name ev)])"
proof -
  note m = main_processed[OF assms]
  have ret: "snd (main cfg w ev) = Returned \<Longrightarrow>
               fst (main cfg w ev) = Download (bucket ev) (name ev) # planned cfg ev st"
    using perform_Returned[of "raises w" "planned cfg ev st"] by (simp add: m)
  have nb: "good st = 0 \<Longrightarrow> \<forall>e\<in>set (calls_made (main cfg w ev)). \<not> batch_call e"
    using calls_made_main[OF assms] by (auto simp: planned_def batch_call_def)
  show ?thesis
    using ret nb by (auto simp: planned_def)
qed

theorem zero_accepted_rows_witness:
  "main default_config (sample_world (Some short_headers) rejected_rows) sample_event
     = ([Download ''exports'' ''call-exports/day1/calls.csv'',
         AuditInsert ''gs://exports/call-exports/day1/calls.csv'' 2 2 ''Processed good=0, bad=2'',
         CopyBlob ''exports'' ''call-exports/day1/calls.csv'' ''processed/calls.csv'',
         DeleteBlob ''exports'' ''call-exports/day1/calls.csv''], Returned)
   \<and> map batch_call
         (fst (main default_config (sample_world (Some short_headers) sample_rows) sample_event))
       = [False, True, True, True, False, False, False]"
proof -
  let ?w0 = "sample_world (Some short_headers) rejected_rows"
  let ?st0 = "\<lparr>total_rows = 2, good = 0, bad = 2, buf = []\<rparr>"
  have loop0: "process_rows default_config (zoneinfo ?w0) (source_file_of sample_event)
      (normalize_headers (Some short_headers)) rejected_rows start = Inr ?st0"
    using rejected_loop by (simp add: sample_world_def)
  have ret0: "snd (main default_config ?w0 sample_event) = Returned"
    by (simp add: sample_main_returns[OF rejected_loop])
  from zero_accepted_rows[OF sample_prefix sample_objects loop0] ret0
  have "fst (main default_config ?w0 sample_event) =
          [Download (bucket sample_event) (name sample_event),
           AuditInsert (source_file_of sample_event) (total_rows ?st0) (bad ?st0)
             (''Processed good='' @ str_nat (good ?st0) @ '', bad='' @ str_nat (bad ?st0)),
           CopyBlob (bucket sample_event) (name sample_event)
             (''processed/'' @ rsplit_last (name sample_event)),
           DeleteBlob (bucket sample_event) (name sample_event)]"
    by simp
  with ret0 have first: "main default_config ?w0 sample_event
     = ([Download ''exports'' ''call-exports/day1/calls.csv'',
         AuditInsert ''gs://exports/call-exports/day1/calls.csv'' 2 2 ''Processed good=0, bad=2'',
         CopyBlob ''exports'' ''call-exports/day1/calls.csv'' ''processed/calls.csv'',
         DeleteBlob ''exports'' ''call-exports/day1/calls.csv''], Returned)"
    by (simp add: prod_eq_iff sample_event_def source_file_of_def rsplit_last_def str_nat_digits)
  let ?w1 = "sample_world (Some short_headers) sample_rows"
  obtain r where loop: "process_rows default_config no_zones (source_file_of sample_event)
      (normalize_headers (Some short_headers)) sample_rows start
        = Inr \<lparr>total_rows = 2, good = 1, bad = 1, buf = [r]\<rparr>"
    using sample_loop by blast
  let ?st1 = "\<lparr>total_rows = 2, good = 1, bad = 1, buf = [r]\<rparr>"
  have loop1: "process_rows default_config (zoneinfo ?w1) (source_file_of sample_event)
      (normalize_headers (Some short_headers)) sample_rows start = Inr ?st1"
    using loop by (simp add: sample_world_def)
  have ret1: "snd (main default_config ?w1 sample_event) = Returned"
    by (simp add: sample_main_returns[OF loop])
  from zero_accepted_rows[OF sample_prefix sample_objects loop1] ret1
  have "map batch_call (fst (main default_config ?w1 sample_event))
          = [False, True, True, True, False, False, False]"
    by (simp add: batch_call_def)
  with first show ?thesis by blast
qed

section \<open>Facts about date parsing\<close>

lemma try_formats_None_iff:
  "try_formats zones tz txt fmts = Inr None \<longleftrightarrow> list_all (\<lambda>fmt. strptime txt fmt = None) fmts"
  by (induction fmts) (auto split: option.splits sum.splits)

lemma try_formats_first_match:
  assumes "list_all (\<lambda>fmt. strptime txt fmt = None) before" and "strptime txt fmt = Some dt"
  shows "try_formats zones tz txt (before @ fmt # after) =
           (case astimezone_utc zones tz dt of
              Inl e \<Rightarrow> Inl e
            | Inr dt_utc \<Rightarrow> Inr (Some (txt, dt_utc)))"
  using assms by (induction before) auto

lemma parse_date_local_None_iff:
  "parse_date_local zones src s override = Inr None \<longleftrightarrow> no_format_matches s"
  by (auto simp: parse_date_local_def no_format_matches_def Let_def try_formats_None_iff
      split: option.splits)

lemma parse_date_local_first_match:
  assumes "strip t \<noteq> []" and "DT_FORMATS = before @ fmt # after"
    and "list_all (\<lambda>f. strptime (strip t) f = None) before"
    and "strptime (strip t) fmt = Some dt"
  shows "parse_date_local zones src (Some t) override =
           (case astimezone_utc zones (case override of Some tz \<Rightarrow> tz | None \<Rightarrow> src) dt of
              Inl e \<Rightarrow> Inl e
            | Inr dt_utc \<Rightarrow> Inr (Some (strip t, dt_utc)))"
  using assms(1) try_formats_first_match[OF assms(3,4)]
  by (simp add: parse_date_local_def Let_def assms(2))

lemma row_instant_None_iff:
  "row_instant cfg zones hm row = Inr None \<longleftrightarrow> no_format_matches (get_val row hm [''call_date''])"
  by (simp add: row_instant_def parse_date_local_None_iff)

lemma map_row_Some_iff:
  "(\<exists>r. map_row cfg zones sf hm row = Inr (Some r))
     \<longleftrightarrow> (\<exists>txt dt. row_instant cfg zones hm row = Inr (Some (txt, dt)))"
proof
  assume "\<exists>r. map_row cfg zones sf hm row = Inr (Some r)"
  then obtain r where r: "map_row cfg zones sf hm row = Inr (Some r)" ..
  show "\<exists>txt dt. row_instant cfg zones hm row = Inr (Some (txt, dt))"
  proof (cases "row_instant cfg zones hm row")
    case (Inl e)
    then show ?thesis using r map_row_Inl_iff[of cfg zones sf hm row e] by simp
  next
    case (Inr res)
    then show ?thesis using r map_row_None_iff[of cfg zones sf hm row] by (cases res) auto
  qed
next
  assume "\<exists>txt dt. row_instant cfg zones hm row = Inr (Some (txt, dt))"
  then show "\<exists>r. map_row cfg zones sf hm row = Inr (Some r)"
    using map_row_of_instant by blast
qed

section \<open>Rejected rows\<close>

text \<open>
  Claim C5. A row is rejected exactly when no format matches the text of its
  \<open>call_date\<close> field, which is when \<open>parse_date_local\<close> returns \<open>None\<close> for it; nothing
  else in the row, the header map, the configuration or the zone of the row enters this
  condition. A rejected row adds one to the total and to the rejected counter, leaves
  the accepted counter and the buffer as they are, and the loop goes on with the next
  row. A row is accepted exactly when its timestamp resolves, whatever its other fields.
\<close>

theorem row_rejected_iff_unparseable:
  "(map_row cfg zones sf hm row = Inr None
      \<longleftrightarrow> no_format_matches (get_val row hm [''call_date'']))
   \<and> (map_row cfg zones sf hm row = Inr None
      \<longleftrightarrow> row_instant cfg zones hm row = Inr None)
   \<and> ((\<exists>r. map_row cfg zones sf hm row = Inr (Some r))
      \<longleftrightarrow> (\<exists>txt dt. row_instant cfg zones hm row = Inr (Some (txt, dt))))
   \<and> (map_row cfg zones sf hm row = Inr None \<longrightarrow>
        process_rows cfg zones sf hm (row # rows) st =
          process_rows cfg zones sf hm rows
            (st\<lparr>total_rows := total_rows st + 1, bad := bad st + 1\<rparr>))"
  using map_row_None_iff[of cfg zones sf hm row] row_instant_None_iff[of cfg zones hm row]
    map_row_Some_iff[of cfg zones sf hm row] process_rows_reject[of cfg zones sf hm row rows st]
  by blast

lemma sample_no_format: "no_format_matches (get_val (short_row ''A'' ''SALE'' ''yesterday'')
     (normalize_headers (Some short_headers)) [''call_date''])"
  by code_simp

theorem row_rejected_iff_unparseable_witness:
  "map_row default_config no_zones (source_file_of sample_event)
     (normalize_headers (Some short_headers)) (short_row ''A'' ''SALE'' ''yesterday'') = Inr None
   \<and> process_rows default_config no_zones (source_file_of sample_event)
       (normalize_headers (Some short_headers)) [short_row ''A'' ''SALE'' ''yesterday''] start
     = Inr \<lparr>total_rows = 1, good = 0, bad = 1, buf = []\<rparr>"
proof -
  note c5 = row_rejected_iff_unparseable[of default_config no_zones "source_file_of sample_event"
      "normalize_headers (Some short_headers)" "short_row ''A'' ''SALE'' ''yesterday''" "[]" start]
  from c5 sample_no_format
  have rej: "map_row default_config no_zones (source_file_of sample_event)
     (normalize_headers (Some short_headers)) (short_row ''A'' ''SALE'' ''yesterday'') = Inr None"
    by blast
  with c5 have "process_rows default_config no_zones (source_file_of sample_event)
       (normalize_headers (Some short_headers)) [short_row ''A'' ''SALE'' ''yesterday''] start
     = process_rows default_config no_zones (source_file_of sample_event)
       (normalize_headers (Some short_headers)) []
         (start\<lparr>total_rows := total_rows start + 1, bad := bad start + 1\<rparr>)"
    by blast
  with rej show ?thesis by (simp add: start_def)
qed

section \<open>Timestamps at the end of the calendar\<close>

lemma last_second_matches:
  "strptime ''9999-12-31 23:59:59'' ''%Y-%m-%d %H:%M:%S''
     = Some \<lparr>year = 9999, month = 12, day = 31, hour = 23, minute = 59, second = 59\<rparr>"
  by code_simp

lemma default_source_zone: "SRC_TZ_OBJ default_config no_zones = FixedOffset (- 7)"
  by code_simp

lemma last_second_instant:
  "row_instant default_config no_zones (normalize_headers (Some short_headers))
     (short_row ''A'' ''SALE'' ''9999-12-31 23:59:59'') = Inl OverflowError"
  by code_simp

text \<open>
  Claim C3. The text \<open>9999-12-31 23:59:59\<close> matches the first format of the list. Under
  the default source zone \<open>UTC-7\<close> the conversion to UTC leaves the range of \<open>datetime\<close>:
  \<open>parse_date_local\<close> returns neither a parsed instant nor \<open>None\<close>, it raises
  \<open>OverflowError\<close>, which only \<open>except ValueError\<close> guards. A file with such a row ends
  the invocation after the download: no audit record, no relocation.
\<close>

theorem parse_date_local_overflow:
  "strptime ''9999-12-31 23:59:59'' (hd DT_FORMATS)
     = Some \<lparr>year = 9999, month = 12, day = 31, hour = 23, minute = 59, second = 59\<rparr>
   \<and> parse_date_local no_zones (SRC_TZ_OBJ default_config no_zones)
         (Some ''9999-12-31 23:59:59'') None = Inl OverflowError
   \<and> main default_config
         (sample_world (Some short_headers) [short_row ''A'' ''SALE'' ''9999-12-31 23:59:59''])
         sample_event
       = ([Download ''exports'' ''call-exports/day1/calls.csv''], Raised (Exception OverflowError))"
proof -
  have a: "strptime ''9999-12-31 23:59:59'' (hd DT_FORMATS)
     = Some \<lparr>year = 9999, month = 12, day = 31, hour = 23, minute = 59, second = 59\<rparr>"
    using last_second_matches by (simp add: DT_FORMATS_def)
  have b: "parse_date_local no_zones (SRC_TZ_OBJ default_config no_zones)
         (Some ''9999-12-31 23:59:59'') None = Inl OverflowError"
    by code_simp
  let ?rows = "[short_row ''A'' ''SALE'' ''9999-12-31 23:59:59'']"
  let ?w = "sample_world (Some short_headers) ?rows"
  have "map_row default_config no_zones (source_file_of sample_event)
          (normalize_headers (Some short_headers))
          (short_row ''A'' ''SALE'' ''9999-12-31 23:59:59'') = Inl OverflowError"
    by (simp add: map_row_Inl_iff last_second_instant)
  then have "process_rows default_config (zoneinfo ?w) (source_file_of sample_event)
          (normalize_headers (Some short_headers)) ?rows start = Inl OverflowError"
    by (simp add: process_rows_raise sample_world_def del: process_rows.simps(2))
  from main_raised[OF sample_prefix sample_objects this]
  have c: "main default_config ?w sample_event
       = ([Download ''exports'' ''call-exports/day1/calls.csv''], Raised (Exception OverflowError))"
    by (simp add: sample_event_def)
  from a b c show ?thesis by blast
qed

section \<open>The fingerprint\<close>

lemma length_sha_round: "length (sha_round kw s) = length s"
  by (simp add: sha_round_def Let_def split: list.splits)

lemma length_fold_sha_round: "length (fold sha_round kws s) = length s"
  by (induction kws arbitrary: s) (simp_all add: length_sha_round)

lemma length_compress: "length (compress h block) = length h"
  by (simp add: compress_def length_fold_sha_round)

lemma length_sha256_blocks: "length (sha256_blocks h m) = length h"
proof (induction h m rule: sha256_blocks.induct)
  case (1 h m)
  show ?case
  proof (cases "m = []")
    case True
    then show ?thesis by (simp add: sha256_blocks.simps)
  next
    case False
    with "1.IH" show ?thesis
      by (subst sha256_blocks.simps) (simp add: length_compress)
  qed
qed

lemma length_sha256: "length (sha256 m) = 8"
  by (simp add: sha256_def length_sha256_blocks H256_def)

lemma length_hexdigest: "length (hexdigest ws) = 8 * length ws"
  by (induction ws) (simp_all add: hexdigest_def hex_word_def)

lemma nibble_less: "unat ((x :: 32 word) AND 15) < 16"
proof -
  have "x AND 15 \<le> 15" by (rule word_and_le1)
  then have "unat (x AND 15) \<le> unat (15 :: 32 word)" by (simp add: word_le_nat_alt)
  then show ?thesis by simp
qed

lemma set_hex_word: "set (hex_word w) \<subseteq> set ''0123456789abcdef''"
proof -
  have "\<And>n. n < 16 \<Longrightarrow> ''0123456789abcdef'' ! n \<in> set ''0123456789abcdef''"
    by (rule nth_mem) simp
  then show ?thesis
    unfolding hex_word_def using nibble_less by auto
qed

lemma set_hexdigest: "set (hexdigest ws) \<subseteq> set ''0123456789abcdef''"
  unfolding hexdigest_def set_concat set_map using set_hex_word by blast

lemma strftime_minute_cong:
  "year d = year d' \<Longrightarrow> month d = month d' \<Longrightarrow> day d = day d' \<Longrightarrow> hour d = hour d'
   \<Longrightarrow> minute d = minute d' \<Longrightarrow> strftime_minute d = strftime_minute d'"
  by (simp add: strftime_minute_def)

lemma map_row_Some_instant:
  assumes "map_row cfg zones sf hm row = Inr (Some r)"
    and "row_instant cfg zones hm row = Inr (Some (txt, dt))"
  shows "DedupKey r = join ''|'' [or_empty (Phone r), or_empty (LeadID r),
                 or_empty (ListID r), or_empty (Disposition r), strftime_minute dt]"
    and "RowHash r = hexdigest (sha256 (encode (DedupKey r)))"
    and "Date r = isoformat dt"
  using map_row_of_instant[OF assms(2), of sf] assms(1) by auto

text \<open>
  Claim C2. For an accepted row, \<open>DedupKey\<close> is the texts of \<open>Phone\<close>, \<open>LeadID\<close>,
  \<open>ListID\<close> and \<open>Disposition\<close> (the empty text for an absent one) and the UTC instant
  cut to the minute, joined by \<open>|\<close>; \<open>RowHash\<close> is the SHA-256 digest of the UTF-8 bytes
  of that text, sixty-four hexadecimal digits. Two accepted rows, of any files and under
  any configuration, that agree on the four fields and whose instants agree up to the
  minute have the same \<open>DedupKey\<close> and the same \<open>RowHash\<close>, whatever their seconds and
  their other fields.
\<close>

theorem fingerprint_of_five_inputs:
  assumes "map_row cfg zones sf hm row = Inr (Some r)"
    and "row_instant cfg zones hm row = Inr (Some (txt, dt))"
    and "map_row cfg' zones' sf' hm' row' = Inr (Some r')"
    and "row_instant cfg' zones' hm' row' = Inr (Some (txt', dt'))"
  shows "DedupKey r = or_empty (Phone r) @ ''|'' @ or_empty (LeadID r) @ ''|''
                        @ or_empty (ListID r) @ ''|'' @ or_empty (Disposition r) @ ''|''
                        @ strftime_minute dt
     \<and> RowHash r = hexdigest (sha256 (encode (DedupKey r)))
     \<and> length (RowHash r) = 64
     \<and> set (RowHash r) \<subseteq> set ''0123456789abcdef''
     \<and> strftime_minute (dt\<lparr>second := s\<rparr>) = strftime_minute dt
     \<and> (Phone r = Phone r' \<and> LeadID r = LeadID r' \<and> ListID r = ListID r'
          \<and> Disposition r = Disposition r'
          \<and> year dt = year dt' \<and> month dt = month dt' \<and> day dt = day dt'
          \<and> hour dt = hour dt' \<and> minute dt = minute dt'
        \<longrightarrow> DedupKey r = DedupKey r' \<and> RowHash r = RowHash r')"
proof -
  note a = map_row_Some_instant[OF assms(1,2)]
  note b = map_row_Some_instant[OF assms(3,4)]
  have k: "DedupKey r = or_empty (Phone r) @ ''|'' @ or_empty (LeadID r) @ ''|''
                        @ or_empty (ListID r) @ ''|'' @ or_empty (Disposition r) @ ''|''
                        @ strftime_minute dt"
    using a(1) by simp
  have len: "length (RowHash r) = 64"
    by (simp add: a(2) length_hexdigest length_sha256)
  have hex: "set (RowHash r) \<subseteq> set ''0123456789abcdef''"
    unfolding a(2) by (rule set_hexdigest)
  have sec: "strftime_minute (dt\<lparr>second := s\<rparr>) = strftime_minute dt"
    by (simp add: strftime_minute_def)
  have same: "Phone r = Phone r' \<and> LeadID r = LeadID r' \<and> ListID r = ListID r'
          \<and> Disposition r = Disposition r'
          \<and> year dt = year dt' \<and> month dt = month dt' \<and> day dt = day dt'
          \<and> hour dt = hour dt' \<and> minute dt = minute dt'
        \<longrightarrow> DedupKey r = DedupKey r' \<and> RowHash r = RowHash r'"
  proof
    assume h: "Phone r = Phone r' \<and> LeadID r = LeadID r' \<and> ListID r = ListID r'
          \<and> Disposition r = Disposition r'
          \<and> year dt = year dt' \<and> month dt = month dt' \<and> day dt = day dt'
          \<and> hour dt = hour dt' \<and> minute dt = minute dt'"
    then have "strftime_minute dt = strftime_minute dt'"
      by (intro strftime_minute_cong) simp_all
    with h have "DedupKey r = DedupKey r'" by (simp add: a(1) b(1))
    then show "DedupKey r = DedupKey r' \<and> RowHash r = RowHash r'"
      by (simp add: a(2) b(2))
  qed
  from k a(2) len hex sec same show ?thesis by blast
qed

subsection \<open>The fields of the sample rows\<close>

lemma short_row_phone:
  "normalize_phone (get_val (short_row l s c) (normalize_headers (Some short_headers))
     [''phone_number_dialed'', ''phone_number'']) = None"
  by code_simp

lemma short_row_lead:
  "pick_lead_id (short_row l s c) (normalize_headers (Some short_headers)) = None"
  by code_simp

lemma short_row_list:
  "get_val (short_row l s c) (normalize_headers (Some short_headers)) [''list_id''] = Some l"
  by code_simp

lemma short_row_status:
  "get_val (short_row l s c) (normalize_headers (Some short_headers)) [''status''] = Some s"
  by code_simp

lemma short_row_instant:
  "row_instant default_config no_zones (normalize_headers (Some short_headers)) (short_row l s c)
     = parse_date_local no_zones (FixedOffset (- 7)) (Some c) None"
proof -
  have "get_val (short_row l s c) (normalize_headers (Some short_headers)) [''call_date''] = Some c"
    by code_simp
  moreover have "get_val (short_row l s c) (normalize_headers (Some short_headers))
      [''gmt_offset_now''] = None"
    by code_simp
  moreover have "tz_from_row_offset None = None"
    by code_simp
  ultimately show ?thesis
    by (simp add: row_instant_def default_source_zone)
qed

lemma short_row_record:
  assumes "parse_date_local no_zones (FixedOffset (- 7)) (Some c) None = Inr (Some (txt, dt))"
  shows "\<exists>r. map_row default_config no_zones sf (normalize_headers (Some short_headers))
                (short_row l s c) = Inr (Some r)
           \<and> Phone r = None \<and> LeadID r = None \<and> ListID r = safe_str (Some l)
           \<and> Disposition r = safe_str (Some s)
           \<and> DedupKey r = ''||'' @ or_empty (safe_str (Some l)) @ ''|''
                             @ or_empty (safe_str (Some s)) @ ''|'' @ strftime_minute dt
           \<and> RowHash r = hexdigest (sha256 (encode (DedupKey r)))"
proof -
  have "row_instant default_config no_zones (normalize_headers (Some short_headers))
          (short_row l s c) = Inr (Some (txt, dt))"
    using assms by (simp add: short_row_instant)
  from map_row_of_instant[OF this, of sf]
  show ?thesis
    by (auto simp: short_row_phone short_row_lead short_row_list short_row_status or_empty_def
        simp del: get_val.simps)
qed

lemma same_minute_parses:
  "parse_date_local no_zones (FixedOffset (- 7)) (Some ''2025-08-23 15:08:58'') None
     = Inr (Some (''2025-08-23 15:08:58'',
         \<lparr>year = 2025, month = 8, day = 23, hour = 22, minute = 8, second = 58\<rparr>))"
  "parse_date_local no_zones (FixedOffset (- 7)) (Some ''2025-08-23 15:08:03'') None
     = Inr (Some (''2025-08-23 15:08:03'',
         \<lparr>year = 2025, month = 8, day = 23, hour = 22, minute = 8, second = 3\<rparr>))"
  by code_simp+

lemma sample_parse:
  "parse_date_local no_zones (FixedOffset (- 7)) (Some ''9/2/25 11:02'') None
     = Inr (Some (''9/2/25 11:02'',
         \<lparr>year = 2025, month = 9, day = 2, hour = 18, minute = 2, second = 0\<rparr>))"
  by code_simp

lemma sample_texts:
  "safe_str (Some ''A'') = Some ''A''" "safe_str (Some ''SALE'') = Some ''SALE''"
  "safe_str (Some ''X|Y'') = Some ''X|Y''" "safe_str (Some ''A|X'') = Some ''A|X''"
  "safe_str (Some ''Y'') = Some ''Y''"
  "strftime_minute \<lparr>year = 2025, month = 8, day = 23, hour = 22, minute = 8, second = 58\<rparr>
     = ''2025-08-23 22:08''"
  "strftime_minute \<lparr>year = 2025, month = 9, day = 2, hour = 18, minute = 2, second = 0\<rparr>
     = ''2025-09-02 18:02''"
  by code_simp+

theorem fingerprint_of_five_inputs_witness:
  "hashes (map_row default_config no_zones ''gs://exports/call-exports/a.csv''
             (normalize_headers (Some short_headers))
             (short_row ''A'' ''SALE'' ''2025-08-23 15:08:58''))
     = hashes (map_row default_config no_zones ''gs://exports/call-exports/b.csv''
                 (normalize_headers (Some short_headers))
                 (short_row ''A'' ''SALE'' ''2025-08-23 15:08:03''))
   \<and> map_option fst
         (hashes (map_row default_config no_zones ''gs://exports/call-exports/a.csv''
                    (normalize_headers (Some short_headers))
                    (short_row ''A'' ''SALE'' ''2025-08-23 15:08:58'')))
       = Some ''||A|SALE|2025-08-23 22:08''"
proof -
  let ?hm = "normalize_headers (Some short_headers)"
  let ?row1 = "short_row ''A'' ''SALE'' ''2025-08-23 15:08:58''"
  let ?row2 = "short_row ''A'' ''SALE'' ''2025-08-23 15:08:03''"
  let ?d1 = "\<lparr>year = 2025, month = 8, day = 23, hour = 22, minute = 8, second = 58\<rparr>"
  let ?d2 = "\<lparr>year = 2025, month = 8, day = 23, hour = 22, minute = 8, second = 3\<rparr>"
  from short_row_record[OF same_minute_parses(1), of "''gs://exports/call-exports/a.csv''" "''A''" "''SALE''"]
  obtain r1 where r1: "map_row default_config no_zones ''gs://exports/call-exports/a.csv'' ?hm ?row1
        = Inr (Some r1)"
    and f1: "Phone r1 = None" "LeadID r1 = None" "ListID r1 = safe_str (Some ''A'')"
      "Disposition r1 = safe_str (Some ''SALE'')"
    by blast
  from short_row_record[OF same_minute_parses(2), of "''gs://exports/call-exports/b.csv''" "''A''" "''SALE''"]
  obtain r2 where r2: "map_row default_config no_zones ''gs://exports/call-exports/b.csv'' ?hm ?row2
        = Inr (Some r2)"
    and f2: "Phone r2 = None" "LeadID r2 = None" "ListID r2 = safe_str (Some ''A'')"
      "Disposition r2 = safe_str (Some ''SALE'')"
    by blast
  have i1: "row_instant default_config no_zones ?hm ?row1 = Inr (Some (''2025-08-23 15:08:58'', ?d1))"
    by (simp add: short_row_instant same_minute_parses)
  have i2: "row_instant default_config no_zones ?hm ?row2 = Inr (Some (''2025-08-23 15:08:03'', ?d2))"
    by (simp add: short_row_instant same_minute_parses)
  note fp = fingerprint_of_five_inputs[OF r1 i1 r2 i2]
  from fp have imp: "Phone r1 = Phone r2 \<and> LeadID r1 = LeadID r2 \<and> ListID r1 = ListID r2
          \<and> Disposition r1 = Disposition r2
          \<and> year ?d1 = year ?d2 \<and> month ?d1 = month ?d2 \<and> day ?d1 = day ?d2
          \<and> hour ?d1 = hour ?d2 \<and> minute ?d1 = minute ?d2
        \<longrightarrow> DedupKey r1 = DedupKey r2 \<and> RowHash r1 = RowHash r2"
    by blast
  have same: "DedupKey r1 = DedupKey r2 \<and> RowHash r1 = RowHash r2"
    by (rule mp[OF imp]) (simp add: f1 f2)
  from fp have "DedupKey r1 = or_empty (Phone r1) @ ''|'' @ or_empty (LeadID r1) @ ''|''
                        @ or_empty (ListID r1) @ ''|'' @ or_empty (Disposition r1) @ ''|''
                        @ strftime_minute ?d1"
    by blast
  then have key: "DedupKey r1 = ''||A|SALE|2025-08-23 22:08''"
    by (simp add: f1 sample_texts or_empty_def)
  from same key show ?thesis
    by (simp add: r1 r2 hashes_def)
qed

section \<open>Distinct rows with one fingerprint\<close>

text \<open>
  Claim C10. The key is not injective in its five parts: the parts are joined by \<open>|\<close>
  as they are. The row with list \<open>A\<close> and disposition \<open>X|Y\<close> and the row with list
  \<open>A|X\<close> and disposition \<open>Y\<close>, at the same instant, are accepted with different
  \<open>ListID\<close> and \<open>Disposition\<close> and with the same \<open>DedupKey\<close> and the same
  \<open>RowHash\<close>.
\<close>

theorem dedup_key_not_injective:
  "identity_fields (map_row default_config no_zones (source_file_of sample_event)
       (normalize_headers (Some short_headers)) (short_row ''A'' ''X|Y'' ''9/2/25 11:02''))
     = Some (None, None, Some ''A'', Some ''X|Y'')
   \<and> identity_fields (map_row default_config no_zones (source_file_of sample_event)
         (normalize_headers (Some short_headers)) (short_row ''A|X'' ''Y'' ''9/2/25 11:02''))
       = Some (None, None, Some ''A|X'', Some ''Y'')
   \<and> map_option fst (hashes (map_row default_config no_zones (source_file_of sample_event)
         (normalize_headers (Some short_headers)) (short_row ''A'' ''X|Y'' ''9/2/25 11:02'')))
       = Some ''||A|X|Y|2025-09-02 18:02''
   \<and> hashes (map_row default_config no_zones (source_file_of sample_event)
         (normalize_headers (Some short_headers)) (short_row ''A'' ''X|Y'' ''9/2/25 11:02''))
       = hashes (map_row default_config no_zones (source_file_of sample_event)
           (normalize_headers (Some short_headers)) (short_row ''A|X'' ''Y'' ''9/2/25 11:02''))"
proof -
  let ?hm = "normalize_headers (Some short_headers)"
  let ?sf = "source_file_of sample_event"
  from short_row_record[OF sample_parse, of ?sf "''A''" "''X|Y''"]
  obtain r1 where r1: "map_row default_config no_zones ?sf ?hm
        (short_row ''A'' ''X|Y'' ''9/2/25 11:02'') = Inr (Some r1)"
    and f1: "Phone r1 = None" "LeadID r1 = None" "ListID r1 = Some ''A''"
      "Disposition r1 = Some ''X|Y''"
    and k1: "DedupKey r1 = ''||A|X|Y|2025-09-02 18:02''"
    and h1: "RowHash r1 = hexdigest (sha256 (encode (DedupKey r1)))"
    by (auto simp: sample_texts or_empty_def)
  from short_row_record[OF sample_parse, of ?sf "''A|X''" "''Y''"]
  obtain r2 where r2: "map_row default_config no_zones ?sf ?hm
        (short_row ''A|X'' ''Y'' ''9/2/25 11:02'') = Inr (Some r2)"
    and f2: "Phone r2 = None" "LeadID r2 = None" "ListID r2 = Some ''A|X''"
      "Disposition r2 = Some ''Y''"
    and k2: "DedupKey r2 = ''||A|X|Y|2025-09-02 18:02''"
    and h2: "RowHash r2 = hexdigest (sha256 (encode (DedupKey r2)))"
    by (auto simp: sample_texts or_empty_def)
  show ?thesis
    by (simp add: r1 r2 f1 f2 k1 k2 h1 h2 identity_fields_def hashes_def)
qed

section \<open>The scenario of the specification\<close>

lemma scenario_lookups:
  "get_val (scenario_row ''phone_number'') (normalize_headers (Some (scenario_headers ''phone_number'')))
     [''call_date''] = Some ''9/2/25 11:02''"
  "get_val (scenario_row ''phone_number'') (normalize_headers (Some (scenario_headers ''phone_number'')))
     [''gmt_offset_now''] = Some ''-4''"
  "normalize_phone (get_val (scenario_row ''phone_number'')
     (normalize_headers (Some (scenario_headers ''phone_number'')))
     [''phone_number_dialed'', ''phone_number'']) = Some ''5551234567''"
  "pick_lead_id (scenario_row ''phone_number'')
     (normalize_headers (Some (scenario_headers ''phone_number''))) = Some ''L1''"
  "safe_str (get_val (scenario_row ''phone_number'')
     (normalize_headers (Some (scenario_headers ''phone_number''))) [''list_id'']) = Some ''A''"
  "safe_str (get_val (scenario_row ''phone_number'')
     (normalize_headers (Some (scenario_headers ''phone_number''))) [''status'']) = Some ''SALE''"
  by code_simp+

lemma scenario_phone_lookups:
  "get_val (scenario_row ''phone'') (normalize_headers (Some (scenario_headers ''phone'')))
     [''call_date''] = Some ''9/2/25 11:02''"
  "get_val (scenario_row ''phone'') (normalize_headers (Some (scenario_headers ''phone'')))
     [''gmt_offset_now''] = Some ''-4''"
  "normalize_phone (get_val (scenario_row ''phone'')
     (normalize_headers (Some (scenario_headers ''phone'')))
     [''phone_number_dialed'', ''phone_number'']) = None"
  "pick_lead_id (scenario_row ''phone'')
     (normalize_headers (Some (scenario_headers ''phone''))) = Some ''L1''"
  "safe_str (get_val (scenario_row ''phone'')
     (normalize_headers (Some (scenario_headers ''phone''))) [''list_id'']) = Some ''A''"
  "safe_str (get_val (scenario_row ''phone'')
     (normalize_headers (Some (scenario_headers ''phone''))) [''status'']) = Some ''SALE''"
  by code_simp+

lemma scenario_values:
  "tz_from_row_offset (Some ''-4'') = Some (FixedOffset (- 4))"
  "parse_date_local zones src (Some ''9/2/25 11:02'') (Some (FixedOffset (- 4)))
     = Inr (Some (''9/2/25 11:02'',
         \<lparr>year = 2025, month = 9, day = 2, hour = 15, minute = 2, second = 0\<rparr>))"
  "isoformat \<lparr>year = 2025, month = 9, day = 2, hour = 15, minute = 2, second = 0\<rparr>
     = ''2025-09-02T15:02:00+00:00''"
  "strftime_minute \<lparr>year = 2025, month = 9, day = 2, hour = 15, minute = 2, second = 0\<rparr>
     = ''2025-09-02 15:02''"
  "or_None (strip ''L1'') = Some ''L1''"
  by code_simp+

text \<open>
  Claim C1, as amended. The row with \<open>phone_number\<close> 555-123-4567, \<open>lead_id\<close> L1,
  \<open>list_id\<close> A, \<open>status\<close> SALE, \<open>call_date\<close> 9/2/25 11:02 and \<open>gmt_offset_now\<close> -4
  is accepted, under every configuration, zone database and file name, with \<open>Phone\<close>
  5551234567, \<open>Date\<close> 2025-09-02T15:02:00+00:00 and \<open>DedupKey\<close>
  5551234567|L1|A|SALE|2025-09-02 15:02.
\<close>

theorem scenario_record:
  "fingerprint_fields
     (map_row cfg zones sf (normalize_headers (Some (scenario_headers ''phone_number'')))
        (scenario_row ''phone_number''))
   = Some (Some ''5551234567'', ''2025-09-02T15:02:00+00:00'',
           ''5551234567|L1|A|SALE|2025-09-02 15:02'')"
proof -
  let ?hm = "normalize_headers (Some (scenario_headers ''phone_number''))"
  let ?row = "scenario_row ''phone_number''"
  have "row_instant cfg zones ?hm ?row = Inr (Some (''9/2/25 11:02'',
         \<lparr>year = 2025, month = 9, day = 2, hour = 15, minute = 2, second = 0\<rparr>))"
    by (simp add: row_instant_def scenario_lookups scenario_values del: get_val.simps)
  from map_row_of_instant[OF this, of sf]
  obtain r where "map_row cfg zones sf ?hm ?row = Inr (Some r)"
    and "Phone r = Some ''5551234567''" and "Date r = ''2025-09-02T15:02:00+00:00''"
    and "DedupKey r = ''5551234567|L1|A|SALE|2025-09-02 15:02''"
    by (auto simp: scenario_lookups scenario_values or_empty_def simp del: get_val.simps)
  then show ?thesis by (simp add: fingerprint_fields_def)
qed

text \<open>
  The same row with the phone under the header \<open>phone\<close>, as the scenario writes it:
  the header is none of \<open>phone_number_dialed\<close> and \<open>phone_number\<close>, so \<open>Phone\<close> is
  absent and the key starts with an empty part.
\<close>

theorem scenario_phone_header_not_read:
  "fingerprint_fields
     (map_row default_config no_zones (source_file_of sample_event)
        (normalize_headers (Some (scenario_headers ''phone''))) (scenario_row ''phone''))
   = Some (None, ''2025-09-02T15:02:00+00:00'', ''|L1|A|SALE|2025-09-02 15:02'')"
proof -
  let ?hm = "normalize_headers (Some (scenario_headers ''phone''))"
  let ?row = "scenario_row ''phone''"
  have "row_instant default_config no_zones ?hm ?row = Inr (Some (''9/2/25 11:02'',
         \<lparr>year = 2025, month = 9, day = 2, hour = 15, minute = 2, second = 0\<rparr>))"
    by (simp add: row_instant_def scenario_phone_lookups scenario_values del: get_val.simps)
  from map_row_of_instant[OF this, of "source_file_of sample_event"]
  obtain r where "map_row default_config no_zones (source_file_of sample_event) ?hm ?row
        = Inr (Some r)"
    and "Phone r = None" and "Date r = ''2025-09-02T15:02:00+00:00''"
    and "DedupKey r = ''|L1|A|SALE|2025-09-02 15:02''"
    by (auto simp: scenario_phone_lookups scenario_values or_empty_def simp del: get_val.simps)
  then show ?thesis by (simp add: fingerprint_fields_def)
qed

section \<open>Empty and missing headers\<close>

lemma foldl_headers_other:
  "\<forall>g\<in>set hs. clean g \<noteq> k \<Longrightarrow> foldl (\<lambda>m h. m(clean h \<mapsto> h)) m0 hs k = m0 k"
  by (induction hs arbitrary: m0) (auto simp: fun_upd_def)

lemma dom_foldl_headers:
  "dom (foldl (\<lambda>m h. m(clean h \<mapsto> h)) m0 hs) = dom m0 \<union> clean ` set hs"
  by (induction hs arbitrary: m0) auto

lemma dom_normalize_headers: "dom (normalize_headers (Some hs)) = clean ` set hs"
  by (simp add: normalize_headers_def dom_foldl_headers)

lemma normalize_headers_last:
  assumes "\<forall>g\<in>set rest. clean g \<noteq> clean h"
  shows "normalize_headers (Some (hs @ h # rest)) (clean h) = Some h"
  using assms by (simp add: normalize_headers_def foldl_headers_other)

lemma clean_empty: "clean None = []" "clean (Some []) = []"
  by (simp_all add: clean_def clean_text_def strip_def lower_def)

text \<open>
  Claim C7, as amended. A header that is empty or null is not dropped from the header
  map: it is entered under the empty name, so the map has an entry for the empty name,
  and when no later header cleans to the empty name that entry holds this very header
  (the empty text, or null).
\<close>

theorem empty_header_kept:
  assumes "h = None \<or> h = Some []"
  shows "[] \<in> dom (normalize_headers (Some (hs @ h # rest)))
     \<and> ((\<forall>g\<in>set rest. clean g \<noteq> []) \<longrightarrow> normalize_headers (Some (hs @ h # rest)) [] = Some h)"
proof -
  from assms have c: "clean h = []" by (auto simp: clean_empty)
  have "clean h \<in> dom (normalize_headers (Some (hs @ h # rest)))"
    unfolding dom_normalize_headers by simp
  moreover have "(\<forall>g\<in>set rest. clean g \<noteq> clean h)
      \<longrightarrow> normalize_headers (Some (hs @ h # rest)) (clean h) = Some h"
    using normalize_headers_last by blast
  ultimately show ?thesis unfolding c by blast
qed

lemma clean_status: "clean (Some ''status'') = ''status''"
  by code_simp

theorem empty_header_kept_witness:
  "normalize_headers (Some [Some ''list_id'', None, Some ''status'']) [] = Some None
   \<and> [] \<in> dom (normalize_headers (Some [Some ''list_id'', None, Some ''status'']))"
  using empty_header_kept [of None "[Some ''list_id'']" "[Some ''status'']"]
  by (simp add: clean_status)

text \<open>
  A file whose second header is empty, and one whose second header is null: the header
  map has an entry under the empty name in both.
\<close>

theorem empty_header_entry:
  "normalize_headers (Some [Some ''status'', Some []]) [] = Some (Some [])
   \<and> normalize_headers (Some [Some ''status'', None]) [] = Some None"
  by code_simp

section \<open>Time zones\<close>

lemma dropWhile_keep: "s = [] \<or> \<not> P (hd s) \<Longrightarrow> dropWhile P s = s"
  by (cases s) auto

lemma strip_id:
  assumes "s \<noteq> []" and "\<not> isspace (hd s)" and "\<not> isspace (last s)"
  shows "strip s = s"
proof -
  have "dropWhile isspace s = s" using assms(2) by (simp add: dropWhile_keep)
  moreover have "dropWhile isspace (rev s) = rev s"
    using assms(1,3) by (simp add: dropWhile_keep hd_rev)
  ultimately show ?thesis by (simp add: strip_def)
qed

lemma isdigit_not_space: "isdigit c \<Longrightarrow> \<not> isspace c \<and> \<not> int_space c"
  by (auto simp: isdigit_def isspace_def whitespace_def int_space_def)

lemma isdigit_not_letter: "isdigit c \<Longrightarrow> c \<noteq> CHR ''U'' \<and> c \<noteq> CHR ''+'' \<and> c \<noteq> CHR ''-''"
  by (auto simp: isdigit_def)

lemma int_body_digits:
  "list_all isdigit ds \<Longrightarrow> int_body acc ds = Some (foldl (\<lambda>a c. 10 * a + digit_val c) acc ds)"
  by (induction acc ds rule: int_body.induct) simp_all

lemma int_unsigned_digits:
  assumes "ds \<noteq> []" and "list_all isdigit ds"
  shows "int_unsigned ds = Some (decimal ds)"
proof -
  from assms(1) obtain c cs where ds: "ds = c # cs" by (cases ds) auto
  with assms(2) have "isdigit c" "list_all isdigit cs" by simp_all
  then show ?thesis
    by (simp add: ds int_unsigned_def int_body_digits decimal_def)
qed

lemma int_strip_id:
  assumes "s \<noteq> []" and "\<not> int_space (hd s)" and "\<not> int_space (last s)"
  shows "rev (dropWhile int_space (rev (dropWhile int_space s))) = s"
proof -
  have "dropWhile int_space s = s" using assms(2) by (simp add: dropWhile_keep)
  moreover have "dropWhile int_space (rev s) = rev s"
    using assms(1,3) by (simp add: dropWhile_keep hd_rev)
  ultimately show ?thesis by simp
qed

lemma last_digit: "ds \<noteq> [] \<Longrightarrow> list_all isdigit ds \<Longrightarrow> isdigit (last ds)"
  by (simp add: list_all_iff)

lemma py_int_digits:
  assumes "ds \<noteq> []" and "list_all isdigit ds"
  shows "py_int ds = Some (int (decimal ds))"
proof -
  from assms obtain c cs where ds: "ds = c # cs" and c: "isdigit c" by (cases ds) auto
  have "rev (dropWhile int_space (rev (dropWhile int_space ds))) = ds"
    using assms c last_digit[OF assms] isdigit_not_space
    by (intro int_strip_id) (simp_all add: ds)
  then show ?thesis
    using c isdigit_not_letter[OF c] int_unsigned_digits[OF assms]
    by (simp add: py_int_def Let_def ds)
qed

lemma py_int_signed:
  assumes "ds \<noteq> []" and "list_all isdigit ds" and "sign = CHR ''+'' \<or> sign = CHR ''-''"
  shows "py_int (sign # ds)
           = Some ((if sign = CHR ''-'' then - 1 else 1) * int (decimal ds))"
proof -
  have sp: "\<not> int_space sign" using assms(3) by (auto simp: int_space_def)
  have "rev (dropWhile int_space (rev (dropWhile int_space (sign # ds)))) = sign # ds"
    using sp last_digit[OF assms(1,2)] isdigit_not_space assms(1)
    by (intro int_strip_id) simp_all
  then show ?thesis
    using assms(3) int_unsigned_digits[OF assms(1,2)]
    by (auto simp: py_int_def Let_def)
qed

lemma replace_without_first:
  "old \<noteq> [] \<Longrightarrow> hd old \<notin> set s \<Longrightarrow> replace old new s = s"
proof (induction s)
  case Nil
  show ?case by simp
next
  case (Cons c cs)
  from Cons.prems have "\<not> prefix old (c # cs)"
    by (cases old) auto
  with Cons show ?case by simp
qed

lemma replace_UTC:
  assumes "CHR ''U'' \<notin> set t"
  shows "replace ''UTC'' [] (''UTC'' @ t) = t"
proof -
  have "replace ''UTC'' [] (''UTC'' @ t) = replace ''UTC'' [] t"
    by simp
  also have "\<dots> = t"
    using assms by (intro replace_without_first) simp_all
  finally show ?thesis .
qed

lemma upper_UTC: "prefix ''UTC'' (upper (''UTC'' @ t))"
proof -
  have "upper ''UTC'' = ''UTC''" by code_simp
  moreover have "upper (''UTC'' @ t) = upper ''UTC'' @ upper t"
    unfolding upper_def by (simp only: map_append concat_append)
  ultimately show ?thesis by simp
qed

lemma resolve_tz_offset:
  assumes "ds \<noteq> []" and "list_all isdigit ds" and "sign = CHR ''+'' \<or> sign = CHR ''-''"
  shows "resolve_tz zones (Some (''UTC'' @ sign # ds))
           = (if decimal ds < 24
              then FixedOffset ((if sign = CHR ''-'' then - 1 else 1) * int (decimal ds))
              else UTC)"
proof -
  let ?s = "''UTC'' @ sign # ds"
  have "last ?s = last ds" using assms(1) by simp
  then have "\<not> isspace (last ?s)"
    using last_digit[OF assms(1,2)] isdigit_not_space by simp
  moreover have "\<not> isspace (hd ?s)" by (simp add: isspace_def whitespace_def)
  ultimately have st: "strip ?s = ?s" by (intro strip_id) simp_all
  have noU: "CHR ''U'' \<notin> set (sign # ds)"
    using assms(2,3) isdigit_not_letter by (auto simp: list_all_iff)
  have sgn: "CHR ''+'' \<in> set ?s \<or> CHR ''-'' \<in> set ?s" using assms(3) by auto
  have "resolve_tz zones (Some ?s)
          = (case py_int (sign # ds) of None \<Rightarrow> UTC
             | Some hours \<Rightarrow> (case timezone hours of None \<Rightarrow> UTC | Some tz \<Rightarrow> tz))"
    unfolding resolve_tz_def Let_def option.case st
    using upper_UTC[of "sign # ds"] sgn replace_UTC[OF noU] by simp
  then show ?thesis
    using assms(3) by (auto simp: py_int_signed[OF assms] timezone_def)
qed

lemma tz_from_row_offset_signed:
  assumes "ds \<noteq> []" and "list_all isdigit ds" and "sign = CHR ''+'' \<or> sign = CHR ''-''"
  shows "tz_from_row_offset (Some (sign # ds))
           = (if decimal ds < 24
              then Some (FixedOffset ((if sign = CHR ''-'' then - 1 else 1) * int (decimal ds)))
              else None)"
proof -
  have "\<not> isspace sign" using assms(3) by (auto simp: isspace_def whitespace_def)
  then have "strip (sign # ds) = sign # ds"
    using last_digit[OF assms(1,2)] isdigit_not_space assms(1) by (intro strip_id) simp_all
  then show ?thesis
    using assms(3) by (auto simp: tz_from_row_offset_def py_int_signed[OF assms] timezone_def)
qed

lemma tz_from_row_offset_unsigned:
  assumes "ds \<noteq> []" and "list_all isdigit ds"
  shows "tz_from_row_offset (Some ds)
           = (if decimal ds < 24 then Some (FixedOffset (int (decimal ds))) else None)"
proof -
  from assms obtain c cs where ds: "ds = c # cs" and c: "isdigit c" by (cases ds) auto
  have "strip ds = ds"
    using last_digit[OF assms] isdigit_not_space c assms(1) by (intro strip_id) (simp_all add: ds)
  then show ?thesis
    by (auto simp: tz_from_row_offset_def py_int_digits[OF assms] timezone_def)
qed

lemma resolve_tz_named:
  assumes "\<not> (prefix ''UTC'' (upper (strip s))
              \<and> (CHR ''+'' \<in> set (strip s) \<or> CHR ''-'' \<in> set (strip s)))"
  shows "resolve_tz zones (Some s)
           = (case zones (strip s) of None \<Rightarrow> UTC | Some off \<Rightarrow> ZoneInfo (strip s))"
  using assms by (auto simp: resolve_tz_def Let_def split: option.splits)

lemma resolve_tz_range:
  "(\<exists>h. resolve_tz zones x = FixedOffset h \<and> - 24 < h \<and> h < 24)
   \<or> (\<exists>key. resolve_tz zones x = ZoneInfo key \<and> zones key \<noteq> None)"
  by (auto simp: resolve_tz_def Let_def UTC_def timezone_def split: option.splits if_splits)

lemma tz_from_row_offset_range:
  "tz_from_row_offset x = None
   \<or> (\<exists>h. tz_from_row_offset x = Some (FixedOffset h) \<and> - 24 < h \<and> h < 24)"
  by (auto simp: tz_from_row_offset_def timezone_def split: option.splits if_splits)

lemma tz_from_row_offset_invalid:
  "py_int (strip t) = None \<Longrightarrow> tz_from_row_offset (Some t) = None"
  "tz_from_row_offset None = None"
  by (simp add: tz_from_row_offset_def, code_simp)

lemma parse_date_local_override:
  "parse_date_local zones src s (Some tz) = parse_date_local zones tz s None"
  by (cases s) (simp_all add: parse_date_local_def Let_def)

text \<open>
  Claim C4, as amended. Time zone resolution has no failing outcome. A configuration
  text \<open>UTC+H\<close> or \<open>UTC-H\<close>, with \<open>H\<close> a decimal number below 24, yields the fixed
  zone of plus or minus \<open>H\<close> hours; with \<open>H\<close> from 24 on it yields UTC. A text that
  does not start with \<open>UTC\<close> in some case, or holds no sign, is looked up in the zone
  database, and UTC is the result when the lookup fails. Every result is a fixed zone
  strictly between minus and plus 24 hours or a zone of the database. A row-level text
  that is a decimal number below 24, with or without a sign, yields the fixed zone of
  that many hours, and \<open>parse_date_local\<close> then uses it where it would use the
  configured zone; a number from 24 on, a text that \<open>int\<close> refuses and a missing field
  yield no override.
\<close>

theorem timezone_resolution:
  assumes "ds \<noteq> []" and "list_all isdigit ds" and "sign = CHR ''+'' \<or> sign = CHR ''-''"
  shows "resolve_tz zones (Some (''UTC'' @ sign # ds))
           = (if decimal ds < 24
              then FixedOffset ((if sign = CHR ''-'' then - 1 else 1) * int (decimal ds))
              else UTC)
     \<and> (\<not> (prefix ''UTC'' (upper (strip s))
             \<and> (CHR ''+'' \<in> set (strip s) \<or> CHR ''-'' \<in> set (strip s)))
        \<longrightarrow> resolve_tz zones (Some s)
              = (case zones (strip s) of None \<Rightarrow> UTC | Some off \<Rightarrow> ZoneInfo (strip s)))
     \<and> ((\<exists>h. resolve_tz zones x = FixedOffset h \<and> - 24 < h \<and> h < 24)
        \<or> (\<exists>key. resolve_tz zones x = ZoneInfo key \<and> zones key \<noteq> None))
     \<and> tz_from_row_offset (Some (sign # ds))
           = (if decimal ds < 24
              then Some (FixedOffset ((if sign = CHR ''-'' then - 1 else 1) * int (decimal ds)))
              else None)
     \<and> tz_from_row_offset (Some ds)
           = (if decimal ds < 24 then Some (FixedOffset (int (decimal ds))) else None)
     \<and> (py_int (strip t) = None \<longrightarrow> tz_from_row_offset (Some t) = None)
     \<and> tz_from_row_offset None = None
     \<and> (tz_from_row_offset y = None
        \<or> (\<exists>h. tz_from_row_offset y = Some (FixedOffset h) \<and> - 24 < h \<and> h < 24))
     \<and> parse_date_local zones src c (Some tz) = parse_date_local zones tz c None"
  using resolve_tz_offset[OF assms, of zones] resolve_tz_named[of s zones]
    resolve_tz_range[of zones x] tz_from_row_offset_signed[OF assms]
    tz_from_row_offset_unsigned[OF assms(1,2)] tz_from_row_offset_invalid(1)[of t]
    tz_from_row_offset_invalid(2)
    tz_from_row_offset_range[of y] parse_date_local_override[of zones src c tz]
  by blast

lemma zone_samples:
  "list_all isdigit ''7''" "decimal ''7'' = 7"
  "strip ''America/Phoenix'' = ''America/Phoenix''"
  "\<not> prefix ''UTC'' (upper ''America/Phoenix'')"
  "one_zone ''America/Phoenix'' \<noteq> None"
  "py_int (strip ''-4.00'') = None"
  by code_simp+

theorem timezone_resolution_witness:
  "resolve_tz one_zone (Some ''UTC-7'') = FixedOffset (- 7)
   \<and> resolve_tz one_zone (Some ''America/Phoenix'') = ZoneInfo ''America/Phoenix''
   \<and> tz_from_row_offset (Some ''-7'') = Some (FixedOffset (- 7))
   \<and> tz_from_row_offset (Some ''7'') = Some (FixedOffset 7)
   \<and> tz_from_row_offset (Some ''-4.00'') = None"
proof -
  have d: "''7'' \<noteq> []" "CHR ''-'' = CHR ''+'' \<or> CHR ''-'' = CHR ''-''" by simp_all
  note t = timezone_resolution[OF d(1) zone_samples(1) d(2), of one_zone "''America/Phoenix''"
      "Some ''UTC-7''" "''-4.00''"]
  from t have "resolve_tz one_zone (Some (''UTC'' @ CHR ''-'' # ''7'')) = FixedOffset (- 7)"
    by (simp add: zone_samples)
  then have a: "resolve_tz one_zone (Some ''UTC-7'') = FixedOffset (- 7)" by simp
  from t zone_samples(3,4,5)
  have b: "resolve_tz one_zone (Some ''America/Phoenix'') = ZoneInfo ''America/Phoenix''"
    by (auto split: option.splits)
  from t have c: "tz_from_row_offset (Some ''-7'') = Some (FixedOffset (- 7))"
    by (simp add: zone_samples)
  from t have e: "tz_from_row_offset (Some ''7'') = Some (FixedOffset 7)"
    by (simp add: zone_samples)
  from t zone_samples(6) have f: "tz_from_row_offset (Some ''-4.00'') = None"
    by blast
  from a b c e f show ?thesis by blast
qed

text \<open>
  The row-level text \<open>24\<close> is a signed-integer text and yields no zone; the
  configuration text \<open>UTC+24\<close> has the form \<open>UTC\<close>, sign, number and yields UTC, not a
  zone of 24 hours.
\<close>

theorem offset_of_24_hours_refused:
  "tz_from_row_offset (Some ''24'') = None
   \<and> tz_from_row_offset (Some ''-30'') = None
   \<and> resolve_tz no_zones (Some ''UTC+24'') = UTC"
  by code_simp

section \<open>Timestamps inside the calendar\<close>

lemma days_before_year_bounds:
  assumes "2 \<le> yr" and "yr \<le> 9998"
  shows "365 \<le> days_before_year yr" and "days_before_year yr \<le> 3651428"
proof -
  define y where "y = yr - 1"
  have y: "1 \<le> y" "y \<le> 9997" using assms by (simp_all add: y_def)
  have a: "y div 100 \<le> y div 4" using y by (intro zdiv_mono2) simp_all
  have b: "0 \<le> y div 400" "0 \<le> y div 100" using y by simp_all
  have c: "y div 4 \<le> 9997 div 4" using y by (intro zdiv_mono1) simp_all
  have d: "y div 400 \<le> 9997 div 400" using y by (intro zdiv_mono1) simp_all
  have e: "days_before_year yr = y * 365 + y div 4 - y div 100 + y div 400"
    by (simp add: days_before_year_def y_def Let_def)
  show "365 \<le> days_before_year yr" using y a b unfolding e by linarith
  show "days_before_year yr \<le> 3651428" using y b c d unfolding e by simp
qed

lemma month_cases:
  assumes "1 \<le> m" and "m \<le> (12::int)"
  shows "m = 1 \<or> m = 2 \<or> m = 3 \<or> m = 4 \<or> m = 5 \<or> m = 6 \<or> m = 7 \<or> m = 8 \<or> m = 9
         \<or> m = 10 \<or> m = 11 \<or> m = 12"
  using assms by arith

lemma day_of_year_bounds:
  assumes "1 \<le> m" and "m \<le> 12" and "1 \<le> d" and "d \<le> days_in_month yr m"
  shows "1 \<le> days_before_month yr m + d" and "days_before_month yr m + d \<le> 366"
  using month_cases[OF assms(1,2)] assms(3,4)
  by (auto simp: days_before_month_def days_in_month_def DAYS_BEFORE_MONTH_def DAYS_IN_MONTH_def
      split: if_splits)


lemma ymd2ord_bounds:
  assumes "valid_datetime dt" and "2 \<le> year dt" and "year dt \<le> 9998"
  shows "366 \<le> ymd2ord (year dt) (month dt) (day dt)"
    and "ymd2ord (year dt) (month dt) (day dt) \<le> 3651794"
proof -
  from assms(1) have v: "1 \<le> month dt" "month dt \<le> 12" "1 \<le> day dt"
    "day dt \<le> days_in_month (year dt) (month dt)"
    by (simp_all add: valid_datetime_def)
  from day_of_year_bounds[OF v] days_before_year_bounds[OF assms(2,3)]
  show "366 \<le> ymd2ord (year dt) (month dt) (day dt)"
    and "ymd2ord (year dt) (month dt) (day dt) \<le> 3651794"
    by (simp_all add: ymd2ord_def)
qed

lemma astimezone_utc_in_range:
  assumes "valid_datetime dt" and "2 \<le> year dt" and "year dt \<le> 9998"
    and "- 86400 < utcoffset zones tz dt" and "utcoffset zones tz dt < 86400"
  shows "\<exists>u. astimezone_utc zones tz dt = Inr u"
proof (cases "tz = UTC")
  case True
  then show ?thesis by (simp add: astimezone_utc_def)
next
  case False
  define n where "n = ymd2ord (year dt) (month dt) (day dt)"
  define off where "off = utcoffset zones tz dt"
  define total where "total = n * 86400 + hour dt * 3600 + minute dt * 60 + second dt - off"
  from assms(1) have t: "0 \<le> hour dt" "hour dt \<le> 23" "0 \<le> minute dt" "minute dt \<le> 59"
    "0 \<le> second dt" "second dt \<le> 59"
    by (simp_all add: valid_datetime_def)
  from ymd2ord_bounds[OF assms(1-3)] have o: "366 \<le> n" "n \<le> 3651794"
    by (simp_all add: n_def)
  from assms(4,5) have f: "- 86400 < off" "off < 86400" by (simp_all add: off_def)
  have lo: "1 * 86400 \<le> total" using t o f unfolding total_def by linarith
  have hi: "total < 3652059 * 86400" using t o f unfolding total_def by linarith
  have "86400 div 86400 \<le> total div (86400::int)"
    using lo by (intro zdiv_mono1) simp_all
  then have pos: "0 < total div 86400" by simp
  have "total div 86400 \<le> (3652059 * 86400 - 1) div (86400::int)"
    using hi by (intro zdiv_mono1) simp_all
  then have le: "total div 86400 \<le> MAXORDINAL" by (simp add: MAXORDINAL_def)
  have "astimezone_utc zones tz dt =
          (case ord2ymd (total div 86400) of
             (y, m, d) \<Rightarrow>
               Inr \<lparr>year = y, month = m, day = d, hour = total mod 86400 div 3600,
                    minute = total mod 86400 mod 3600 div 60, second = total mod 86400 mod 60\<rparr>)"
    using False pos le
    by (simp add: astimezone_utc_def Let_def total_def n_def off_def)
  then show ?thesis by (cases "ord2ymd (total div 86400)") simp
qed

lemma fixed_offset_range:
  "- 24 < h \<Longrightarrow> h < 24 \<Longrightarrow>
   - 86400 < utcoffset zones (FixedOffset h) dt \<and> utcoffset zones (FixedOffset h) dt < 86400"
  by (simp add: utcoffset_def)

lemma strptime_valid:
  assumes "strptime txt fmt = Some dt"
  shows "valid_datetime dt"
proof (cases "pattern fmt")
  case None
  with assms show ?thesis by (simp add: strptime_def)
next
  case (Some rs)
  show ?thesis
  proof (cases "matches rs txt")
    case Nil
    with Some assms show ?thesis by (simp add: strptime_def)
  next
    case (Cons m ms)
    obtain found rest where m: "m = (found, rest)" by (cases m)
    with Some Cons assms show ?thesis
      by (simp add: strptime_def split: if_splits option.splits)
  qed
qed

lemma first_match_exists:
  assumes "\<not> list_all (\<lambda>f. strptime txt f = None) fmts"
  shows "\<exists>before fmt after dt. fmts = before @ fmt # after
           \<and> list_all (\<lambda>f. strptime txt f = None) before \<and> strptime txt fmt = Some dt"
proof -
  from assms have "\<exists>f\<in>set fmts. strptime txt f \<noteq> None" by (auto simp: list_all_iff)
  from split_list_first_prop[OF this]
  obtain before fmt after where "fmts = before @ fmt # after" "strptime txt fmt \<noteq> None"
    "\<forall>f\<in>set before. \<not> strptime txt f \<noteq> None" by blast
  then show ?thesis by (auto simp: list_all_iff)
qed

text \<open>
  What \<open>parse_date_local\<close> does away from the two ends of the calendar: when a format
  matches the stripped text, the first such format decides, and for a year from 2 to
  9998 under a fixed zone the result is that text with an instant; when none matches,
  the result is \<open>None\<close>.
\<close>

lemma parse_date_local_in_range:
  assumes "\<not> no_format_matches (Some t)"
    and zone: "(case override of Some tz \<Rightarrow> tz | None \<Rightarrow> src) = FixedOffset h"
    and "- 24 < h" and "h < 24"
  shows "\<exists>before fmt after dt.
           DT_FORMATS = before @ fmt # after
         \<and> list_all (\<lambda>f. strptime (strip t) f = None) before
         \<and> strptime (strip t) fmt = Some dt
         \<and> (2 \<le> year dt \<and> year dt \<le> 9998 \<longrightarrow>
              (\<exists>u. parse_date_local zones src (Some t) override = Inr (Some (strip t, u))))"
proof -
  from assms(1) have ne: "strip t \<noteq> []"
    and "\<not> list_all (\<lambda>f. strptime (strip t) f = None) DT_FORMATS"
    by (simp_all add: no_format_matches_def)
  from first_match_exists[OF this(2)]
  obtain before fmt after dt where s: "DT_FORMATS = before @ fmt # after"
    and b: "list_all (\<lambda>f. strptime (strip t) f = None) before"
    and m: "strptime (strip t) fmt = Some dt" by blast
  have "\<exists>u. parse_date_local zones src (Some t) override = Inr (Some (strip t, u))"
    if y: "2 \<le> year dt \<and> year dt \<le> 9998"
  proof -
    from astimezone_utc_in_range[OF strptime_valid[OF m], of zones "FixedOffset h"] y
      fixed_offset_range[OF assms(3,4), of zones dt]
    obtain u where "astimezone_utc zones (FixedOffset h) dt = Inr u" by blast
    with parse_date_local_first_match[OF ne s b m, of zones src override] zone
    show ?thesis by simp
  qed
  with s b m show ?thesis by blast
qed

end
